theory Spec2Isabelle
  imports Main
begin

section \<open>Data model of \<^verbatim>\<open>grafana_service.ts\<close>\<close>

text \<open>
  The error classes of the module. \<^verbatim>\<open>DataKitError\<close> extends the platform's \<^verbatim>\<open>Error\<close> by two
  optional context fields; \<^verbatim>\<open>BadRange\<close>, \<^verbatim>\<open>GrafanaUnavailable\<close> and \<^verbatim>\<open>DatasourceUnavailable\<close>
  are its subclasses. A plain \<^verbatim>\<open>Error\<close> carries a message only. \<^verbatim>\<open>TypeError\<close> is what the
  platform raises by itself (\<^verbatim>\<open>new URL\<close> on an unparsable string, a property read on
  \<^verbatim>\<open>undefined\<close>).
\<close>

record DataKitError =
  message :: string
  datasourceType :: "string option"
  datasourceUrl :: "string option"

datatype error =
    Error string
  | TypeError string
  | BadRange DataKitError
  | GrafanaUnavailable DataKitError
  | DatasourceUnavailable DataKitError

definition CHUNK_SIZE :: nat where
  "CHUNK_SIZE = 50000"

text \<open>
  \<^verbatim>\<open>{ columns, values }\<close>: the shape of what \<^verbatim>\<open>getResults\<close> returns, of \<^verbatim>\<open>TimeSeriesChunk\<close>
  and of the aggregate \<^verbatim>\<open>data\<close> object. Rows are opaque to this module (type \<open>'v\<close>).
\<close>

record 'v chunk =
  columns :: "string list"
  values' :: "'v list"

text \<open>
  \<^verbatim>\<open>TimeSeriesPoint(columns, values)\<close>. The read closure constructs it from \<^verbatim>\<open>chunk.columns\<close>
  and \<^verbatim>\<open>chunk.values\<close>, so its second field holds a list of rows.
\<close>

datatype 'v TimeSeriesPoint = TimeSeriesPoint "string list" "'v list"

text \<open>
  \<^verbatim>\<open>MetricQuery\<close> (declared in \<^verbatim>\<open>./metrics/metric\<close>): \<^verbatim>\<open>{ url, method, schema, headers? }\<close>.
  Header objects are modelled as flat maps from header names to string values; the schema
  (further transport options) is opaque (type \<open>'s\<close>).
\<close>

type_synonym headers = "string \<rightharpoonup> string"

record 's MetricQuery =
  url :: string
  method' :: string
  schema :: 's
  headers :: "headers option"

text \<open>
  \<^verbatim>\<open>Metric\<close> (declared in \<^verbatim>\<open>./metrics/metrics_factory\<close>): \<^verbatim>\<open>metric.datasource.type\<close>,
  \<^verbatim>\<open>metric.metricQuery.getQuery(from, to, limit, offset)\<close> and
  \<^verbatim>\<open>metric.metricQuery.getResults(res)\<close>. Timestamps are integers.
\<close>

record ('s, 'r, 'v) Metric =
  datasource_type :: string
  getQuery :: "int \<Rightarrow> int \<Rightarrow> nat \<Rightarrow> nat \<Rightarrow> 's MetricQuery"
  getResults :: "'r \<Rightarrow> 'v chunk"

text \<open>
  The object handed to the transport: \<^verbatim>\<open>{ headers, url, method }\<close> completed by
  \<^verbatim>\<open>_.defaults(axiosQuery, query.schema)\<close>. The three named properties are always defined, so
  \<^verbatim>\<open>_.defaults\<close> leaves them alone and only contributes the schema's other properties.
\<close>

record 's axiosQuery =
  ax_headers :: headers
  ax_url :: string
  ax_method :: string
  ax_schema :: 's

text \<open>
  What the transport throws: \<^verbatim>\<open>e.message\<close>, \<^verbatim>\<open>e.errno\<close> and \<^verbatim>\<open>e.response\<close>, the last two
  possibly \<^verbatim>\<open>undefined\<close>. Of a response the module reads the status, and the data and
  headers only to print them (kept here as their \<^verbatim>\<open>JSON.stringify\<close> texts).
\<close>

record http_response =
  status :: int
  response_data :: string
  response_headers :: string

record failure =
  e_message :: string
  errno :: "string option"
  response :: "http_response option"

text \<open>
  Console output, kept as the values interpolated into each line:
  \<^verbatim>\<open>console.warn(text)\<close>, \<^verbatim>\<open>console.error(`${msg} ${queryUrl}`)\<close> (message and path name)
  and the \<^verbatim>\<open>Response: ...\<close> dump.
\<close>

datatype log_entry =
    Warn string
  | RequestFailed string string
  | ResponseDump http_response

text \<open>
  The effects of the module: the exchanges with the transport so far (request and outcome,
  oldest first) and the console lines written so far.
\<close>

record ('s, 'r) world =
  calls :: "('s axiosQuery \<times> (failure + 'r)) list"
  console :: "log_entry list"

text \<open>
  The transport (\<^verbatim>\<open>axios\<close>) is external: it answers a request, given the exchanges that came
  before it, with a response or with a failure.
\<close>

type_synonym ('s, 'r) transport =
  "('s axiosQuery \<times> (failure + 'r)) list \<Rightarrow> 's axiosQuery \<Rightarrow> failure + 'r"

text \<open>
  The platform's \<^verbatim>\<open>URL\<close> class is external as well: a parser returns the \<^verbatim>\<open>origin\<close> and the
  \<^verbatim>\<open>pathname\<close> of a string, or nothing where \<^verbatim>\<open>new URL\<close> throws.
\<close>

record URL =
  origin :: string
  pathname :: string

type_synonym url_parser = "string \<Rightarrow> URL option"

section \<open>Number formatting in template strings\<close>

definition digit_char :: "nat \<Rightarrow> char" where
  "digit_char d = ''0123456789'' ! d"

text \<open>
  \<^verbatim>\<open>${from}\<close> and \<^verbatim>\<open>${to}\<close>: an integer in a template string is written in decimal, with a
  leading minus sign when negative.
\<close>

fun decimal :: "nat \<Rightarrow> string" where
  "decimal n =
     (if 10 \<le> n then decimal (n div 10) @ [digit_char (n mod 10)] else [digit_char n])"

declare decimal.simps [simp del]

definition number_to_string :: "int \<Rightarrow> string" where
  "number_to_string i = (if 0 \<le> i then decimal (nat i) else CHR ''-'' # decimal (nat (- i)))"

section \<open>\<^verbatim>\<open>getGrafanaUrl\<close>\<close>

text \<open>
  \<^verbatim>\<open>path.match(/^\/*([^\/]*)\/d\//)\<close>, as the backtracking matcher runs it. The group
  \<^verbatim>\<open>([^\/]*)\<close> is greedy: it is tried at its longest length first and then shorter.
\<close>

definition starts_with :: "string \<Rightarrow> string \<Rightarrow> bool" where
  "starts_with p s = (take (length p) s = p)"

fun try_group :: "nat \<Rightarrow> string \<Rightarrow> string option" where
  "try_group 0 s = (if starts_with ''/d/'' s then Some [] else None)"
| "try_group (Suc j) s =
     (if starts_with ''/d/'' (drop (Suc j) s) then Some (take (Suc j) s) else try_group j s)"

text \<open>
  \<^verbatim>\<open>\/*\<close> is greedy too: all leading slashes first, then one fewer on each backtrack.
\<close>

definition group_at :: "nat \<Rightarrow> string \<Rightarrow> string option" where
  "group_at k path =
     (let s = drop k path
      in try_group (length (takeWhile (\<lambda>c. c \<noteq> CHR ''/'') s)) s)"

fun try_slashes :: "nat \<Rightarrow> string \<Rightarrow> string option" where
  "try_slashes 0 path = group_at 0 path"
| "try_slashes (Suc k) path =
     (case group_at (Suc k) path of
        Some g \<Rightarrow> Some g
      | None \<Rightarrow> try_slashes k path)"

definition panel_match :: "string \<Rightarrow> string option" where
  "panel_match path = try_slashes (length (takeWhile (\<lambda>c. c = CHR ''/'') path)) path"

definition getGrafanaUrl :: "url_parser \<Rightarrow> string \<Rightarrow> error + string" where
  "getGrafanaUrl parse u =
     (case parse u of
        None \<Rightarrow> Inl (TypeError ''Invalid URL'')
      | Some parsedUrl \<Rightarrow>
          (case panel_match (pathname parsedUrl) of
             None \<Rightarrow> Inr u
           | Some grafanaSubPath \<Rightarrow>
               if length grafanaSubPath > 0
               then Inr (origin parsedUrl @ ''/'' @ grafanaSubPath)
               else Inr (origin parsedUrl)))"

section \<open>\<^verbatim>\<open>queryGrafana\<close>\<close>

text \<open>
  \<^verbatim>\<open>_.merge(headers, query.headers)\<close> on flat header objects with string values: every
  property of the source is written into the destination, over a property of the same name.
\<close>

definition merge :: "headers \<Rightarrow> headers \<Rightarrow> headers" where
  "merge object source = object ++ source"

definition build_axiosQuery :: "'s MetricQuery \<Rightarrow> string \<Rightarrow> 's axiosQuery" where
  "build_axiosQuery query apiKey =
     (let hdrs = [''Authorization'' \<mapsto> ''Bearer '' @ apiKey];
          hdrs = (case headers query of None \<Rightarrow> hdrs | Some qh \<Rightarrow> merge hdrs qh)
      in \<lparr>ax_headers = hdrs, ax_url = url query, ax_method = method' query,
          ax_schema = schema query\<rparr>)"

text \<open>The \<^verbatim>\<open>catch\<close> block: it logs and always throws.\<close>

definition classify ::
  "url_parser \<Rightarrow> 's MetricQuery \<Rightarrow> string \<Rightarrow> failure \<Rightarrow> ('s, 'r) world \<Rightarrow> error \<times> ('s, 'r) world"
where
  "classify parse query dsType e w =
     (let msg = ''Data kit: fail while request data: '' @ e_message e
      in case parse (url query) of
           None \<Rightarrow> (TypeError ''Invalid URL'', w)
         | Some parsedUrl \<Rightarrow>
             let w1 = w\<lparr>console := console w @ [RequestFailed msg (pathname parsedUrl)]\<rparr>
             in if errno e = Some ''ECONNREFUSED''
                then (GrafanaUnavailable
                        \<lparr>message = e_message e, datasourceType = None, datasourceUrl = None\<rparr>, w1)
                else
                  (case response e of
                     None \<Rightarrow> (Error msg, w1)
                   | Some r \<Rightarrow>
                       let w2 = w1\<lparr>console := console w1 @ [ResponseDump r]\<rparr>
                       in if status r = 401
                          then (Error (''Unauthorized. Check the API_KEY. '' @ e_message e), w2)
                          else if status r = 502
                          then (DatasourceUnavailable
                                  \<lparr>message = ''datasource '' @ pathname parsedUrl
                                       @ '' unavailable, message: '' @ e_message e,
                                   datasourceType = Some dsType,
                                   datasourceUrl = Some (url query)\<rparr>, w2)
                          else (Error msg, w2)))"

definition queryGrafana ::
  "url_parser \<Rightarrow> ('s, 'r) transport \<Rightarrow> 's MetricQuery \<Rightarrow> string \<Rightarrow> string \<Rightarrow> ('s, 'r) world
     \<Rightarrow> (error + 'r) \<times> ('s, 'r) world"
where
  "queryGrafana parse axios query apiKey dsType w =
     (let aq = build_axiosQuery query apiKey;
          outcome = axios (calls w) aq;
          w' = w\<lparr>calls := calls w @ [(aq, outcome)]\<rparr>
      in case outcome of
           Inr res \<Rightarrow> (Inr res, w')
         | Inl e \<Rightarrow> (case classify parse query dsType e w' of (err, w'') \<Rightarrow> (Inl err, w'')))"

section \<open>\<^verbatim>\<open>queryByMetric\<close>\<close>

text \<open>
  The \<^verbatim>\<open>while(true)\<close> loop. It has no bound of its own: a transport that keeps answering
  with full pages keeps it running, which is the value \<open>None\<close> here.
\<close>

partial_function (option) paging ::
  "url_parser \<Rightarrow> ('s, 'r) transport \<Rightarrow> ('s, 'r, 'v) Metric \<Rightarrow> string \<Rightarrow> int \<Rightarrow> int \<Rightarrow> string
     \<Rightarrow> 'v chunk \<Rightarrow> ('s, 'r) world \<Rightarrow> ((error + 'v chunk) \<times> ('s, 'r) world) option"
where
  "paging parse axios metric grafanaUrl from to apiKey data_acc w =
     (let query = getQuery metric from to CHUNK_SIZE (length (values' data_acc));
          query = query\<lparr>url := grafanaUrl @ ''/'' @ url query\<rparr>
      in case queryGrafana parse axios query apiKey (datasource_type metric) w of
           (Inl e, w') \<Rightarrow> Some (Inl e, w')
         | (Inr res, w') \<Rightarrow>
             let chunk = getResults metric res;
                 vals = values' chunk;
                 data_acc = data_acc\<lparr>values' := values' data_acc @ vals\<rparr>;
                 data_acc = data_acc\<lparr>columns := columns chunk\<rparr>
             in if length vals < CHUNK_SIZE then Some (Inr data_acc, w')
                else paging parse axios metric grafanaUrl from to apiKey data_acc w')"

definition bad_range :: "int \<Rightarrow> int \<Rightarrow> string \<Rightarrow> string \<Rightarrow> error" where
  "bad_range from to dsType u =
     BadRange \<lparr>message = ''Data-kit got wrong range: from '' @ number_to_string from
                  @ '' > to '' @ number_to_string to,
               datasourceType = Some dsType, datasourceUrl = Some u\<rparr>"

definition warn_equal :: "int \<Rightarrow> int \<Rightarrow> ('s, 'r) world \<Rightarrow> ('s, 'r) world" where
  "warn_equal from to w =
     (if from = to then w\<lparr>console := console w @ [Warn ''Data-kit got from === to'']\<rparr> else w)"

definition queryByMetric ::
  "url_parser \<Rightarrow> ('s, 'r) transport \<Rightarrow> ('s, 'r, 'v) Metric \<Rightarrow> string \<Rightarrow> int \<Rightarrow> int \<Rightarrow> string
     \<Rightarrow> ('s, 'r) world \<Rightarrow> ((error + 'v chunk) \<times> ('s, 'r) world) option"
where
  "queryByMetric parse axios metric u from to apiKey w =
     (if from > to then Some (Inl (bad_range from to (datasource_type metric) u), w)
      else
        let w1 = warn_equal from to w
        in case getGrafanaUrl parse u of
             Inl e \<Rightarrow> Some (Inl e, w1)
           | Inr grafanaUrl \<Rightarrow>
               paging parse axios metric grafanaUrl from to apiKey
                 \<lparr>columns = [], values' = []\<rparr> w1)"

section \<open>\<^verbatim>\<open>DatasourceStream\<close>\<close>

text \<open>
  The object: its constructor parameters, the derived \<^verbatim>\<open>grafanaUrl\<close> and the private buffer
  \<^verbatim>\<open>currentChunk\<close>, initially empty. The constructor calls \<^verbatim>\<open>getGrafanaUrl\<close>.
\<close>

record ('s, 'r, 'v) DatasourceStream =
  metric :: "('s, 'r, 'v) Metric"
  stream_url :: string
  apiKey :: string
  grafanaUrl :: string
  currentChunk :: "'v TimeSeriesPoint list"

definition new_DatasourceStream ::
  "url_parser \<Rightarrow> ('s, 'r, 'v) Metric \<Rightarrow> string \<Rightarrow> string \<Rightarrow> error + ('s, 'r, 'v) DatasourceStream"
where
  "new_DatasourceStream parse m u key =
     (case getGrafanaUrl parse u of
        Inl e \<Rightarrow> Inl e
      | Inr g \<Rightarrow>
          Inr \<lparr>metric = m, stream_url = u, apiKey = key, grafanaUrl = g, currentChunk = []\<rparr>)"

text \<open>
  The generator \<^verbatim>\<open>_query\<close>. Between two \<^verbatim>\<open>next()\<close> calls it is either not yet started,
  suspended at its \<^verbatim>\<open>yield\<close> (holding the local \<^verbatim>\<open>chunk\<close>), or completed. Its local
  \<^verbatim>\<open>returnedValuesLength\<close> is initialised to 0 and never assigned again.
\<close>

datatype 'v generator = Fresh | Suspended "'v chunk" | Finished

text \<open>
  One run of the loop body up to the \<^verbatim>\<open>yield\<close>. A failing \<^verbatim>\<open>queryGrafana\<close> completes the
  generator with the error.
\<close>

definition query_body ::
  "url_parser \<Rightarrow> ('s, 'r) transport \<Rightarrow> ('s, 'r, 'v) DatasourceStream \<Rightarrow> int \<Rightarrow> int
     \<Rightarrow> ('s, 'r) world \<Rightarrow> (error + 'v chunk option) \<times> 'v generator \<times> ('s, 'r) world"
where
  "query_body parse axios this from to w =
     (let returnedValuesLength = 0;
          query = getQuery (metric this) from to CHUNK_SIZE returnedValuesLength;
          query = query\<lparr>url := grafanaUrl this @ ''/'' @ url query\<rparr>
      in case queryGrafana parse axios query (apiKey this) (datasource_type (metric this)) w of
           (Inl e, w') \<Rightarrow> (Inl e, Finished, w')
         | (Inr res, w') \<Rightarrow>
             let chunk = getResults (metric this) res
             in (Inr (Some \<lparr>columns = columns chunk, values' = values' chunk\<rparr>),
                 Suspended chunk, w'))"

text \<open>
  \<^verbatim>\<open>data.next()\<close>: the value yielded (\<open>None\<close> is \<^verbatim>\<open>undefined\<close>, the value of a completed
  generator), the generator afterwards, and the effects.
\<close>

definition gen_next ::
  "url_parser \<Rightarrow> ('s, 'r) transport \<Rightarrow> ('s, 'r, 'v) DatasourceStream \<Rightarrow> int \<Rightarrow> int
     \<Rightarrow> 'v generator \<Rightarrow> ('s, 'r) world
     \<Rightarrow> (error + 'v chunk option) \<times> 'v generator \<times> ('s, 'r) world"
where
  "gen_next parse axios this from to g w =
     (case g of
        Fresh \<Rightarrow> query_body parse axios this from to w
      | Suspended chunk \<Rightarrow>
          if length (values' chunk) < CHUNK_SIZE then (Inr None, Finished, w)
          else query_body parse axios this from to w
      | Finished \<Rightarrow> (Inr None, Finished, w))"

text \<open>
  What one \<^verbatim>\<open>query(from, to)\<close> call owns while its \<^verbatim>\<open>Readable\<close> is consumed: the object
  (with the buffer), the generator \<^verbatim>\<open>data\<close>, and everything handed to \<^verbatim>\<open>self.push\<close> so far
  (\<open>None\<close> is \<^verbatim>\<open>undefined\<close>).
\<close>

record ('s, 'r, 'v) stream_state =
  obj :: "('s, 'r, 'v) DatasourceStream"
  gen :: "'v generator"
  pushed :: "'v TimeSeriesPoint option list"

text \<open>\<^verbatim>\<open>self.push(this.currentChunk.shift())\<close>: \<^verbatim>\<open>shift\<close> on an empty array is \<^verbatim>\<open>undefined\<close>.\<close>

definition push_shift :: "('s, 'r, 'v) stream_state \<Rightarrow> ('s, 'r, 'v) stream_state" where
  "push_shift st =
     (case currentChunk (obj st) of
        [] \<Rightarrow> st\<lparr>pushed := pushed st @ [None]\<rparr>
      | p # rest \<Rightarrow> st\<lparr>obj := (obj st)\<lparr>currentChunk := rest\<rparr>, pushed := pushed st @ [Some p]\<rparr>)"

fun push_loop :: "nat \<Rightarrow> ('s, 'r, 'v) stream_state \<Rightarrow> ('s, 'r, 'v) stream_state" where
  "push_loop 0 st = st"
| "push_loop (Suc n) st = push_loop n (push_shift st)"

text \<open>
  The \<^verbatim>\<open>for (const value of chunk.values)\<close> loop. \<^verbatim>\<open>Array.prototype.concat\<close> returns a new
  array and does not change its receiver; the loop drops the result.
\<close>

definition concat_loop ::
  "'v chunk \<Rightarrow> 'v TimeSeriesPoint list \<Rightarrow> 'v TimeSeriesPoint list"
where
  "concat_loop chunk buf =
     foldl (\<lambda>cur value.
              let dropped = cur @ [TimeSeriesPoint (columns chunk) (values' chunk)]
              in cur)
       buf (values' chunk)"

text \<open>
  The \<^verbatim>\<open>read\<close> closure for one pull of \<open>n\<close> (its parameter \<^verbatim>\<open>size\<close>). It is an \<^verbatim>\<open>async\<close>
  function: an error inside it (a failing round trip, or reading \<^verbatim>\<open>.values\<close> of the
  \<^verbatim>\<open>undefined\<close> a completed generator returns) rejects its promise and nothing is pushed.
\<close>

definition read ::
  "url_parser \<Rightarrow> ('s, 'r) transport \<Rightarrow> int \<Rightarrow> int \<Rightarrow> nat
     \<Rightarrow> ('s, 'r, 'v) stream_state \<times> ('s, 'r) world
     \<Rightarrow> error option \<times> ('s, 'r, 'v) stream_state \<times> ('s, 'r) world"
where
  "read parse axios from to n = (\<lambda>(st, w).
     if length (currentChunk (obj st)) < n
     then
       (case gen_next parse axios (obj st) from to (gen st) w of
          (Inl e, g', w') \<Rightarrow> (Some e, st\<lparr>gen := g'\<rparr>, w')
        | (Inr None, g', w') \<Rightarrow> (Some (TypeError ''chunk is undefined''), st\<lparr>gen := g'\<rparr>, w')
        | (Inr (Some chunk), g', w') \<Rightarrow>
            let buf = concat_loop chunk (currentChunk (obj st))
            in (None,
                push_loop n (st\<lparr>obj := (obj st)\<lparr>currentChunk := buf\<rparr>, gen := g'\<rparr>), w'))
     else (None, push_loop n st, w))"

text \<open>\<^verbatim>\<open>DatasourceStream.query(from, to)\<close>: the range check, then the stream handle.\<close>

definition stream_query ::
  "('s, 'r, 'v) DatasourceStream \<Rightarrow> int \<Rightarrow> int \<Rightarrow> ('s, 'r) world
     \<Rightarrow> (error + ('s, 'r, 'v) stream_state) \<times> ('s, 'r) world"
where
  "stream_query this from to w =
     (if from > to
      then (Inl (bad_range from to (datasource_type (metric this)) (stream_url this)), w)
      else (Inr \<lparr>obj = this, gen = Fresh, pushed = []\<rparr>, warn_equal from to w))"

text \<open>
  A consumer pulling the given sizes one after the other, each pull starting from what the
  one before it left behind, whether that one failed or not.
\<close>

fun pulls ::
  "url_parser \<Rightarrow> ('s, 'r) transport \<Rightarrow> int \<Rightarrow> int \<Rightarrow> nat list
     \<Rightarrow> ('s, 'r, 'v) stream_state \<times> ('s, 'r) world
     \<Rightarrow> ('s, 'r, 'v) stream_state \<times> ('s, 'r) world"
where
  "pulls parse axios from to [] sw = sw"
| "pulls parse axios from to (n # ns) sw =
     pulls parse axios from to ns (snd (read parse axios from to n sw))"

text \<open>The points a consumer receives: what was pushed and is not \<^verbatim>\<open>undefined\<close>.\<close>

definition delivered :: "('s, 'r, 'v) stream_state \<Rightarrow> 'v TimeSeriesPoint list" where
  "delivered st = List.map_filter id (pushed st)"

section \<open>The requests and the accumulation of the paging loop\<close>

text \<open>
  The request one iteration hands to the transport for a given offset (\<^verbatim>\<open>getQuery\<close>, the URL
  prefixed with the derived endpoint, then the header and option assembly of
  \<^verbatim>\<open>queryGrafana\<close>), and what one iteration of \<^verbatim>\<open>queryByMetric\<close> makes of \<^verbatim>\<open>data\<close>.
\<close>

definition page_request ::
  "('s, 'r, 'v) Metric \<Rightarrow> string \<Rightarrow> int \<Rightarrow> int \<Rightarrow> string \<Rightarrow> nat \<Rightarrow> 's axiosQuery"
where
  "page_request m g from to key offset =
     build_axiosQuery
       ((getQuery m from to CHUNK_SIZE offset)
          \<lparr>url := g @ ''/'' @ url (getQuery m from to CHUNK_SIZE offset)\<rparr>) key"

definition merge_page :: "'v chunk \<Rightarrow> 'v chunk \<Rightarrow> 'v chunk" where
  "merge_page acc page = \<lparr>columns = columns page, values' = values' acc @ values' page\<rparr>"


section \<open>Test doubles\<close>

text \<open>
  A parser for the plain URLs \<^verbatim>\<open>https://host/path\<close> of the examples (no port, query, fragment
  or escapes), on which it gives the origin and path name the platform's parser gives.
\<close>

definition stub_URL :: url_parser where
  "stub_URL u =
     (if starts_with ''https://'' u
      then
        (let rest = drop 8 u;
             host = takeWhile (\<lambda>c. c \<noteq> CHR ''/'') rest;
             path = dropWhile (\<lambda>c. c \<noteq> CHR ''/'') rest
         in if host = [] then None
            else Some \<lparr>origin = ''https://'' @ host,
                       pathname = (if path = [] then ''/'' else path)\<rparr>)
      else None)"

text \<open>
  A metric whose query builder puts the limit and the offset into the schema, and whose
  responses are the pages themselves. Rows are pairs of a time and a value.
\<close>

definition stub_metric :: "(nat \<times> nat, (int \<times> int) chunk, int \<times> int) Metric" where
  "stub_metric =
     \<lparr>datasource_type = ''influxdb'',
      getQuery = (\<lambda>from to limit offset.
         \<lparr>url = ''api/datasources/proxy/1/query'', method' = ''GET'',
          schema = (limit, offset), headers = None\<rparr>),
      getResults = (\<lambda>res. res)\<rparr>"

definition world0 :: "('s, 'r) world" where
  "world0 = \<lparr>calls = [], console = []\<rparr>"

text \<open>A transport that fails every request with \<open>e\<close>.\<close>

definition failing :: "failure \<Rightarrow> ('s, 'r) transport" where
  "failing e = (\<lambda>history request. Inl e)"

text \<open>
  A backend of \<open>2 * CHUNK_SIZE + 37\<close> rows, served by offset: two full pages and a page
  of 37 rows, each with a column layout of its own.
\<close>

definition page_a :: "(int \<times> int) chunk" where
  "page_a = \<lparr>columns = [''time'', ''a''], values' = replicate CHUNK_SIZE (1, 10)\<rparr>"

definition page_b :: "(int \<times> int) chunk" where
  "page_b = \<lparr>columns = [''time'', ''b''], values' = replicate CHUNK_SIZE (2, 20)\<rparr>"

definition page_c :: "(int \<times> int) chunk" where
  "page_c = \<lparr>columns = [''time'', ''c''], values' = replicate 37 (3, 30)\<rparr>"

definition three_pages :: "(nat \<times> nat, (int \<times> int) chunk) transport" where
  "three_pages = (\<lambda>history request.
     let offset = snd (ax_schema request)
     in if offset = 0 then Inr page_a
        else if offset = CHUNK_SIZE then Inr page_b
        else Inr page_c)"

text \<open>A backend of \<open>CHUNK_SIZE + 1\<close> rows, served by offset: a full page and a page of one row.\<close>

definition page_last :: "(int \<times> int) chunk" where
  "page_last = \<lparr>columns = [''time'', ''a''], values' = [(2, 20)]\<rparr>"

definition two_pages :: "(nat \<times> nat, (int \<times> int) chunk) transport" where
  "two_pages = (\<lambda>history request.
     if snd (ax_schema request) = 0 then Inr page_a else Inr page_last)"

text \<open>A query as \<^verbatim>\<open>queryGrafana\<close> receives it, and transport failures of each kind.\<close>

definition stub_query :: "(nat \<times> nat) MetricQuery" where
  "stub_query =
     \<lparr>url = ''https://host/api/datasources/proxy/1/query'', method' = ''GET'',
      schema = (50000, 0), headers = None\<rparr>"

definition refused :: failure where
  "refused = \<lparr>e_message = ''connect ECONNREFUSED 127.0.0.1:3000'',
              errno = Some ''ECONNREFUSED'', response = None\<rparr>"

definition http_failure :: "int \<Rightarrow> failure" where
  "http_failure code =
     \<lparr>e_message = ''Request failed with status code '' @ number_to_string code,
      errno = None,
      response = Some \<lparr>status = code, response_data = ''{}'', response_headers = ''{}''\<rparr>\<rparr>"

definition timed_out :: failure where
  "timed_out = \<lparr>e_message = ''timeout of 1000ms exceeded'', errno = None, response = None\<rparr>"

definition basic_headers :: headers where
  "basic_headers = [''Authorization'' \<mapsto> ''Basic abc'']"

definition accept_headers :: headers where
  "accept_headers = [''Accept'' \<mapsto> ''application/json'']"

text \<open>
  The stub parser extended to \<^verbatim>\<open>file:\<close> URLs with an empty host, whose origin the platform
  reports as the string \<^verbatim>\<open>null\<close>; and the query \<^verbatim>\<open>queryByMetric\<close> builds from that origin,
  whose URL no parser reads.
\<close>

definition file_URL :: url_parser where
  "file_URL u =
     (if starts_with ''file:///'' u
      then Some \<lparr>origin = ''null'', pathname = drop 7 u\<rparr>
      else stub_URL u)"

definition null_query :: "(nat \<times> nat) MetricQuery" where
  "null_query =
     \<lparr>url = ''null/api/datasources/proxy/1/query'', method' = ''GET'',
      schema = (CHUNK_SIZE, 0), headers = None\<rparr>"

text \<open>
  The request the stub metric builds for an offset, against \<^verbatim>\<open>https://host\<close> with the key
  \<^verbatim>\<open>key\<close>; and a backend whose only page is short.
\<close>

definition stub_request :: "nat \<Rightarrow> (nat \<times> nat) axiosQuery" where
  "stub_request offset =
     \<lparr>ax_headers = [''Authorization'' \<mapsto> ''Bearer key''],
      ax_url = ''https://host/api/datasources/proxy/1/query'', ax_method = ''GET'',
      ax_schema = (CHUNK_SIZE, offset)\<rparr>"


text \<open>
  The stream object the constructor builds for the stub metric at
  \<^verbatim>\<open>https://host/d/abc\<close>, and the handle \<^verbatim>\<open>query\<close> returns for it.
\<close>

definition stub_stream :: "(nat \<times> nat, (int \<times> int) chunk, int \<times> int) DatasourceStream" where
  "stub_stream =
     \<lparr>metric = stub_metric, stream_url = ''https://host/d/abc'', apiKey = ''key'',
      grafanaUrl = ''https://host'', currentChunk = []\<rparr>"

definition stub_handle :: "(nat \<times> nat, (int \<times> int) chunk, int \<times> int) stream_state" where
  "stub_handle = \<lparr>obj = stub_stream, gen = Fresh, pushed = []\<rparr>"

section \<open>Endpoint derivation\<close>

lemma starts_with_append: "starts_with p (p @ r)"
  by (simp add: starts_with_def)

lemma starts_with_split: "starts_with p s \<Longrightarrow> s = p @ drop (length p) s"
  by (metis append_take_drop_id starts_with_def)

lemma take_takeWhile:
  assumes "k \<le> length (takeWhile P xs)"
  shows "take k xs = take k (takeWhile P xs)"
proof -
  have "take k xs = take k (takeWhile P xs @ dropWhile P xs)"
    by simp
  also have "\<dots> = take k (takeWhile P xs)"
    using assms by (simp del: takeWhile_dropWhile_id)
  finally show ?thesis .
qed

lemma take_leading:
  assumes "k \<le> length (takeWhile P xs)" and "x \<in> set (take k xs)"
  shows "P x"
proof -
  have "x \<in> set (take k (takeWhile P xs))"
    using assms take_takeWhile [of k P xs] by simp
  then have "x \<in> set (takeWhile P xs)"
    by (rule in_set_takeD)
  then show ?thesis
    by (rule set_takeWhileD [THEN conjunct2])
qed

lemma try_group_sound:
  "try_group j s = Some g \<Longrightarrow> j \<le> length (takeWhile (\<lambda>c. c \<noteq> CHR ''/'') s) \<Longrightarrow>
   \<exists>rest. s = g @ ''/d/'' @ rest \<and> CHR ''/'' \<notin> set g"
proof (induction j)
  case 0
  then have "starts_with ''/d/'' s" and "g = []"
    by (auto split: if_splits)
  then show ?case
    using starts_with_split [of "''/d/''" s] by auto
next
  case (Suc j)
  show ?case
  proof (cases "starts_with ''/d/'' (drop (Suc j) s)")
    case True
    with Suc.prems have g: "g = take (Suc j) s" by simp
    have "CHR ''/'' \<notin> set g"
      using take_leading [OF Suc.prems(2), of "CHR ''/''"] g by blast
    moreover obtain rest where "drop (Suc j) s = ''/d/'' @ rest"
      using starts_with_split [OF True] by blast
    then have "s = g @ ''/d/'' @ rest"
      using g append_take_drop_id [of "Suc j" s] by simp
    ultimately show ?thesis by blast
  next
    case False
    with Suc show ?thesis by simp
  qed
qed

lemma try_group_first:
  assumes "CHR ''/'' \<notin> set seg"
  shows "try_group (length (takeWhile (\<lambda>c. c \<noteq> CHR ''/'') (seg @ ''/d/'' @ rest)))
           (seg @ ''/d/'' @ rest) = Some seg"
proof -
  have tw: "takeWhile (\<lambda>c. c \<noteq> CHR ''/'') (seg @ ''/d/'' @ rest) = seg"
    using assms by (induction seg) auto
  show ?thesis
    unfolding tw by (cases "length seg") (auto simp: starts_with_def)
qed


lemma leading_slashes:
  assumes "t = [] \<or> hd t \<noteq> CHR ''/''"
  shows "takeWhile (\<lambda>c. c = CHR ''/'') (replicate k CHR ''/'' @ t) = replicate k CHR ''/''"
  using assms by (induction k) (auto simp: takeWhile_eq_Nil_iff)

lemma group_at_replicate:
  "group_at k (replicate k CHR ''/'' @ t) = try_group (length (takeWhile (\<lambda>c. c \<noteq> CHR ''/'') t)) t"
  by (simp add: group_at_def)

lemma try_slashes_hit:
  "group_at k path = Some g \<Longrightarrow> try_slashes k path = Some g"
  by (cases k) simp_all

lemma panel_match_nonempty:
  assumes "seg \<noteq> []" and "CHR ''/'' \<notin> set seg"
  shows "panel_match (replicate k CHR ''/'' @ seg @ ''/d/'' @ rest) = Some seg"
proof -
  have "hd (seg @ ''/d/'' @ rest) \<noteq> CHR ''/''"
    using assms by (cases seg) auto
  then have n: "length (takeWhile (\<lambda>c. c = CHR ''/'') (replicate k CHR ''/'' @ seg @ ''/d/'' @ rest)) = k"
    by (simp add: leading_slashes)
  have "group_at k (replicate k CHR ''/'' @ seg @ ''/d/'' @ rest) = Some seg"
    unfolding group_at_replicate using assms(2) by (rule try_group_first)
  then show ?thesis
    unfolding panel_match_def n by (rule try_slashes_hit)
qed

lemma panel_match_empty:
  assumes "\<not> starts_with ''d/'' rest"
  shows "panel_match (replicate k CHR ''/'' @ ''/d/'' @ rest) = Some []"
proof -
  let ?path = "replicate k CHR ''/'' @ ''/d/'' @ rest"
  have path: "?path = replicate (Suc k) CHR ''/'' @ ''d/'' @ rest"
    by (simp add: replicate_append_same)
  have n: "length (takeWhile (\<lambda>c. c = CHR ''/'') ?path) = Suc k"
    unfolding path by (subst leading_slashes) simp_all
  have miss: "group_at (Suc k) ?path = None"
    unfolding path group_at_replicate using assms
    by (simp add: starts_with_def)
  have hit: "group_at k ?path = Some []"
    unfolding group_at_replicate by (simp add: starts_with_def)
  show ?thesis
    unfolding panel_match_def n using miss hit by (simp add: try_slashes_hit)
qed

lemma try_slashes_sound:
  "try_slashes k path = Some g \<Longrightarrow> k \<le> length (takeWhile (\<lambda>c. c = CHR ''/'') path) \<Longrightarrow>
   \<exists>k' rest. path = replicate k' CHR ''/'' @ g @ ''/d/'' @ rest \<and> CHR ''/'' \<notin> set g"
proof (induction k)
  case 0
  then have "try_group (length (takeWhile (\<lambda>c. c \<noteq> CHR ''/'') path)) path = Some g"
    by (simp add: group_at_def)
  then obtain rest where "path = g @ ''/d/'' @ rest" "CHR ''/'' \<notin> set g"
    using try_group_sound by blast
  then have "path = replicate 0 CHR ''/'' @ g @ ''/d/'' @ rest \<and> CHR ''/'' \<notin> set g"
    by simp
  then show ?case by blast
next
  case (Suc k)
  show ?case
  proof (cases "group_at (Suc k) path")
    case None
    with Suc show ?thesis by simp
  next
    case (Some g')
    with Suc.prems have "g' = g" by simp
    with Some obtain rest where r: "drop (Suc k) path = g @ ''/d/'' @ rest" "CHR ''/'' \<notin> set g"
      unfolding group_at_def Let_def using try_group_sound by blast
    have "length (take (Suc k) path) = Suc k"
      using Suc.prems(2) length_takeWhile_le [of "\<lambda>c. c = CHR ''/''" path] by simp
    then have "take (Suc k) path = replicate (Suc k) CHR ''/''"
      using take_leading [OF Suc.prems(2)] by (rule replicate_eqI)
    then have "path = replicate (Suc k) CHR ''/'' @ g @ ''/d/'' @ rest"
      using r(1) append_take_drop_id [of "Suc k" path] by simp
    with r(2) show ?thesis by blast
  qed
qed

lemma panel_match_sound:
  "panel_match path = Some g \<Longrightarrow>
   \<exists>k rest. path = replicate k CHR ''/'' @ g @ ''/d/'' @ rest \<and> CHR ''/'' \<notin> set g"
  unfolding panel_match_def by (erule try_slashes_sound) simp

lemma panel_match_complete:
  assumes "path = replicate k CHR ''/'' @ seg @ ''/d/'' @ rest" and "CHR ''/'' \<notin> set seg"
  shows "panel_match path \<noteq> None"
proof (cases "seg = []")
  case False
  then show ?thesis
    using panel_match_nonempty [OF False assms(2), of k rest] assms(1) by simp
next
  case True
  show ?thesis
  proof (cases "starts_with ''d/'' rest")
    case False
    then show ?thesis
      using panel_match_empty [OF False, of k] assms(1) \<open>seg = []\<close> by simp
  next
    case True
    then obtain r where "rest = ''d/'' @ r"
      using starts_with_split by blast
    then have "path = replicate (Suc k) CHR ''/'' @ ''d'' @ ''/d/'' @ r"
      using assms(1) \<open>seg = []\<close> by (simp add: replicate_append_same)
    then show ?thesis
      using panel_match_nonempty [of "''d''" "Suc k" r] by simp
  qed
qed


text \<open>
  Claim C7. For every URL that parses, \<^verbatim>\<open>getGrafanaUrl\<close> returns the origin, a slash and the
  leading path segment when the path is some slashes, a non-empty segment without slash,
  and then \<^verbatim>\<open>/d/\<close>; the bare origin when the path matches the pattern with an empty segment
  only; and the input unchanged when the path has no such form. (The pattern is greedy: a
  path that can be read both ways, such as \<^verbatim>\<open>/d/d/x\<close>, is read with the non-empty segment.)
\<close>

theorem endpoint_derivation:
  assumes "parse u = Some p"
  shows "(\<forall>k seg rest.
            pathname p = replicate k CHR ''/'' @ seg @ ''/d/'' @ rest
              \<and> seg \<noteq> [] \<and> CHR ''/'' \<notin> set seg
            \<longrightarrow> getGrafanaUrl parse u = Inr (origin p @ ''/'' @ seg))
       \<and> (\<forall>k rest.
            pathname p = replicate k CHR ''/'' @ ''/d/'' @ rest
              \<and> (\<nexists>k' seg rest'. seg \<noteq> [] \<and> CHR ''/'' \<notin> set seg
                    \<and> pathname p = replicate k' CHR ''/'' @ seg @ ''/d/'' @ rest')
            \<longrightarrow> getGrafanaUrl parse u = Inr (origin p))
       \<and> ((\<nexists>k seg rest. CHR ''/'' \<notin> set seg
              \<and> pathname p = replicate k CHR ''/'' @ seg @ ''/d/'' @ rest)
            \<longrightarrow> getGrafanaUrl parse u = Inr u)"
proof (intro conjI allI impI)
  fix k seg rest
  assume "pathname p = replicate k CHR ''/'' @ seg @ ''/d/'' @ rest
            \<and> seg \<noteq> [] \<and> CHR ''/'' \<notin> set seg"
  then have "panel_match (pathname p) = Some seg" and "seg \<noteq> []"
    using panel_match_nonempty [of seg k rest] by simp_all
  then show "getGrafanaUrl parse u = Inr (origin p @ ''/'' @ seg)"
    using assms by (simp add: getGrafanaUrl_def)
next
  fix k rest
  assume h: "pathname p = replicate k CHR ''/'' @ ''/d/'' @ rest
               \<and> (\<nexists>k' seg rest'. seg \<noteq> [] \<and> CHR ''/'' \<notin> set seg
                     \<and> pathname p = replicate k' CHR ''/'' @ seg @ ''/d/'' @ rest')"
  have "\<not> starts_with ''d/'' rest"
  proof
    assume "starts_with ''d/'' rest"
    then obtain r where "rest = ''d/'' @ r"
      using starts_with_split by blast
    then have "pathname p = replicate (Suc k) CHR ''/'' @ ''d'' @ ''/d/'' @ r"
      using h by (simp add: replicate_append_same)
    moreover have "''d'' \<noteq> [] \<and> CHR ''/'' \<notin> set ''d''"
      by simp
    ultimately show False
      using h by blast
  qed
  then have "panel_match (pathname p) = Some []"
    using panel_match_empty [of rest k] h by simp
  then show "getGrafanaUrl parse u = Inr (origin p)"
    using assms by (simp add: getGrafanaUrl_def)
next
  assume "\<nexists>k seg rest. CHR ''/'' \<notin> set seg
            \<and> pathname p = replicate k CHR ''/'' @ seg @ ''/d/'' @ rest"
  then have "panel_match (pathname p) = None"
    using panel_match_sound [of "pathname p"] by (cases "panel_match (pathname p)") auto
  then show "getGrafanaUrl parse u = Inr u"
    using assms by (simp add: getGrafanaUrl_def)
qed

theorem endpoint_derivation_witness:
  "stub_URL ''https://host/org1/d/abc''
       = Some \<lparr>origin = ''https://host'', pathname = ''/org1/d/abc''\<rparr>
   \<and> ''/org1/d/abc'' = replicate 1 CHR ''/'' @ ''org1'' @ ''/d/'' @ ''abc''
   \<and> getGrafanaUrl stub_URL ''https://host/org1/d/abc'' = Inr ''https://host/org1''
   \<and> stub_URL ''https://host/d/abc''
       = Some \<lparr>origin = ''https://host'', pathname = ''/d/abc''\<rparr>
   \<and> ''/d/abc'' = replicate 0 CHR ''/'' @ ''/d/'' @ ''abc''
   \<and> getGrafanaUrl stub_URL ''https://host/d/abc'' = Inr ''https://host''
   \<and> stub_URL ''https://host/other/path''
       = Some \<lparr>origin = ''https://host'', pathname = ''/other/path''\<rparr>
   \<and> getGrafanaUrl stub_URL ''https://host/other/path'' = Inr ''https://host/other/path''"
proof -
  let ?a = "\<lparr>origin = ''https://host'', pathname = ''/org1/d/abc''\<rparr>"
  let ?b = "\<lparr>origin = ''https://host'', pathname = ''/d/abc''\<rparr>"
  let ?c = "\<lparr>origin = ''https://host'', pathname = ''/other/path''\<rparr>"
  have pa: "stub_URL ''https://host/org1/d/abc'' = Some ?a"
    and pb: "stub_URL ''https://host/d/abc'' = Some ?b"
    and pc: "stub_URL ''https://host/other/path'' = Some ?c"
    by (simp_all add: stub_URL_def starts_with_def)
  have ha: "pathname ?a = replicate 1 CHR ''/'' @ ''org1'' @ ''/d/'' @ ''abc''
              \<and> ''org1'' \<noteq> [] \<and> CHR ''/'' \<notin> set ''org1''"
    by simp
  have mb: "panel_match ''/d/abc'' = Some []"
    by (simp add: panel_match_def group_at_def starts_with_def)
  have hb: "pathname ?b = replicate 0 CHR ''/'' @ ''/d/'' @ ''abc''
              \<and> (\<nexists>k' seg rest'. seg \<noteq> [] \<and> CHR ''/'' \<notin> set seg
                    \<and> pathname ?b = replicate k' CHR ''/'' @ seg @ ''/d/'' @ rest')"
    using mb panel_match_nonempty by fastforce
  have mc: "panel_match ''/other/path'' = None"
    by (simp add: panel_match_def group_at_def starts_with_def)
  have hc: "\<nexists>k seg rest. CHR ''/'' \<notin> set seg
              \<and> pathname ?c = replicate k CHR ''/'' @ seg @ ''/d/'' @ rest"
    using mc panel_match_complete by fastforce
  have "getGrafanaUrl stub_URL ''https://host/org1/d/abc'' = Inr (origin ?a @ ''/'' @ ''org1'')"
    using endpoint_derivation [of stub_URL "''https://host/org1/d/abc''" ?a] pa ha by blast
  moreover have "getGrafanaUrl stub_URL ''https://host/d/abc'' = Inr (origin ?b)"
    using endpoint_derivation [of stub_URL "''https://host/d/abc''" ?b] pb hb by blast
  moreover have "getGrafanaUrl stub_URL ''https://host/other/path'' = Inr ''https://host/other/path''"
    using endpoint_derivation [of stub_URL "''https://host/other/path''" ?c] pc hc by blast
  ultimately show ?thesis
    using pa pb pc by simp
qed


section \<open>Range validation\<close>

text \<open>
  Claim C5. When \<open>from > to\<close>, the aggregate entry point and the streaming entry point both
  fail with \<^verbatim>\<open>BadRange\<close>, carrying the datasource type and the URL that was supplied, and the
  effects are untouched: no transport request, no console line.
\<close>

theorem bad_range_rejected:
  assumes "from > to"
  shows "queryByMetric parse axios m u from to key w
           = Some (Inl (BadRange
                \<lparr>message = ''Data-kit got wrong range: from '' @ number_to_string from
                     @ '' > to '' @ number_to_string to,
                 datasourceType = Some (datasource_type m), datasourceUrl = Some u\<rparr>), w)
       \<and> (\<forall>this. new_DatasourceStream parse m u key = Inr this \<longrightarrow>
            stream_query this from to w
              = (Inl (BadRange
                   \<lparr>message = ''Data-kit got wrong range: from '' @ number_to_string from
                        @ '' > to '' @ number_to_string to,
                    datasourceType = Some (datasource_type m), datasourceUrl = Some u\<rparr>), w))"
  using assms
  by (auto simp add: queryByMetric_def stream_query_def bad_range_def new_DatasourceStream_def
      split: sum.splits)

theorem bad_range_rejected_witness:
  "(5::int) > 3
   \<and> queryByMetric stub_URL three_pages stub_metric ''https://host/d/abc'' 5 3 ''key'' world0
       = Some (Inl (BadRange
            \<lparr>message = ''Data-kit got wrong range: from 5 > to 3'',
             datasourceType = Some ''influxdb'',
             datasourceUrl = Some ''https://host/d/abc''\<rparr>), world0)
   \<and> new_DatasourceStream stub_URL stub_metric ''https://host/d/abc'' ''key''
       = Inr \<lparr>metric = stub_metric, stream_url = ''https://host/d/abc'', apiKey = ''key'',
              grafanaUrl = ''https://host'', currentChunk = []\<rparr>
   \<and> stream_query
         \<lparr>metric = stub_metric, stream_url = ''https://host/d/abc'', apiKey = ''key'',
          grafanaUrl = ''https://host'', currentChunk = []\<rparr> 5 3
         (world0 :: (nat \<times> nat, (int \<times> int) chunk) world)
       = (Inl (BadRange
            \<lparr>message = ''Data-kit got wrong range: from 5 > to 3'',
             datasourceType = Some ''influxdb'',
             datasourceUrl = Some ''https://host/d/abc''\<rparr>), world0)"
proof -
  have h: "(5::int) > 3" by simp
  have n: "new_DatasourceStream stub_URL stub_metric ''https://host/d/abc'' ''key''
       = Inr \<lparr>metric = stub_metric, stream_url = ''https://host/d/abc'', apiKey = ''key'',
              grafanaUrl = ''https://host'', currentChunk = []\<rparr>"
    by (simp add: new_DatasourceStream_def getGrafanaUrl_def stub_URL_def starts_with_def
        panel_match_def group_at_def)
  have t: "datasource_type stub_metric = ''influxdb''"
    by (simp add: stub_metric_def)
  have s: "number_to_string 5 = ''5''" "number_to_string 3 = ''3''"
    by (simp_all add: number_to_string_def decimal.simps digit_char_def)
  show ?thesis
    using bad_range_rejected [OF h, of stub_URL three_pages stub_metric "''https://host/d/abc''"
        "''key''" world0] n t s
    by simp
qed

section \<open>Error classification\<close>

lemma queryGrafana_failure:
  "axios (calls w) (build_axiosQuery query key) = Inl e \<Longrightarrow>
   fst (queryGrafana parse axios query key ds w)
     = Inl (fst (classify parse query ds e
                   (w\<lparr>calls := calls w @ [(build_axiosQuery query key, Inl e)]\<rparr>)))"
  by (simp add: queryGrafana_def Let_def split: prod.splits)

text \<open>
  Claim C4, as amended. When the transport fails on a query whose URL parses,
  \<^verbatim>\<open>queryGrafana\<close> throws exactly one error, determined by the failure:
  \<^verbatim>\<open>GrafanaUnavailable\<close> for \<^verbatim>\<open>errno\<close> \<^verbatim>\<open>ECONNREFUSED\<close>; otherwise a plain \<^verbatim>\<open>Error\<close> about the
  API key for a response with status 401, which has no datasource fields;
  \<^verbatim>\<open>DatasourceUnavailable\<close> with the datasource type and the query URL for status 502; and a
  plain \<^verbatim>\<open>Error\<close> wrapping the original message for any other status or no response.
\<close>

theorem error_mapping:
  assumes "axios (calls w) (build_axiosQuery query key) = Inl e"
    and "parse (url query) = Some p"
  shows "(errno e = Some ''ECONNREFUSED'' \<longrightarrow>
            fst (queryGrafana parse axios query key ds w)
              = Inl (GrafanaUnavailable
                  \<lparr>message = e_message e, datasourceType = None, datasourceUrl = None\<rparr>))
       \<and> (errno e \<noteq> Some ''ECONNREFUSED'' \<longrightarrow>
            (\<forall>r. response e = Some r \<and> status r = 401 \<longrightarrow>
               fst (queryGrafana parse axios query key ds w)
                 = Inl (Error (''Unauthorized. Check the API_KEY. '' @ e_message e)))
          \<and> (\<forall>r. response e = Some r \<and> status r = 502 \<longrightarrow>
               fst (queryGrafana parse axios query key ds w)
                 = Inl (DatasourceUnavailable
                     \<lparr>message = ''datasource '' @ pathname p @ '' unavailable, message: ''
                          @ e_message e,
                      datasourceType = Some ds, datasourceUrl = Some (url query)\<rparr>))
          \<and> ((response e = None
                \<or> (\<exists>r. response e = Some r \<and> status r \<noteq> 401 \<and> status r \<noteq> 502)) \<longrightarrow>
               fst (queryGrafana parse axios query key ds w)
                 = Inl (Error (''Data kit: fail while request data: '' @ e_message e))))"
  using assms
  by (auto simp add: queryGrafana_failure classify_def Let_def)

lemma stub_query_parses:
  "stub_URL (url stub_query)
     = Some \<lparr>origin = ''https://host'', pathname = ''/api/datasources/proxy/1/query''\<rparr>"
  by (simp add: stub_query_def stub_URL_def starts_with_def)

lemma number_401: "number_to_string 401 = ''401''"
  and number_502: "number_to_string 502 = ''502''"
  and number_500: "number_to_string 500 = ''500''"
  by (simp_all add: number_to_string_def decimal.simps digit_char_def)

theorem error_mapping_witness:
  "fst (queryGrafana stub_URL (failing refused) stub_query ''key'' ''influxdb''
          (world0 :: (nat \<times> nat, unit) world))
     = Inl (GrafanaUnavailable
         \<lparr>message = ''connect ECONNREFUSED 127.0.0.1:3000'',
          datasourceType = None, datasourceUrl = None\<rparr>)
   \<and> fst (queryGrafana stub_URL (failing (http_failure 401)) stub_query ''key'' ''influxdb''
          (world0 :: (nat \<times> nat, unit) world))
     = Inl (Error ''Unauthorized. Check the API_KEY. Request failed with status code 401'')
   \<and> fst (queryGrafana stub_URL (failing (http_failure 502)) stub_query ''key'' ''influxdb''
          (world0 :: (nat \<times> nat, unit) world))
     = Inl (DatasourceUnavailable
         \<lparr>message = ''datasource /api/datasources/proxy/1/query unavailable, message: Request failed with status code 502'',
          datasourceType = Some ''influxdb'',
          datasourceUrl = Some ''https://host/api/datasources/proxy/1/query''\<rparr>)
   \<and> fst (queryGrafana stub_URL (failing (http_failure 500)) stub_query ''key'' ''influxdb''
          (world0 :: (nat \<times> nat, unit) world))
     = Inl (Error ''Data kit: fail while request data: Request failed with status code 500'')
   \<and> fst (queryGrafana stub_URL (failing timed_out) stub_query ''key'' ''influxdb''
          (world0 :: (nat \<times> nat, unit) world))
     = Inl (Error ''Data kit: fail while request data: timeout of 1000ms exceeded'')"
proof -
  let ?w = "world0 :: (nat \<times> nat, unit) world"
  have f: "\<And>e. failing e (calls ?w) (build_axiosQuery stub_query ''key'') = Inl e"
    by (simp add: failing_def)
  note m = error_mapping [where w = ?w and query = stub_query and key = "''key''"
      and parse = stub_URL and ds = "''influxdb''"
      and p = "\<lparr>origin = ''https://host'', pathname = ''/api/datasources/proxy/1/query''\<rparr>",
      OF _ stub_query_parses]
  have "fst (queryGrafana stub_URL (failing refused) stub_query ''key'' ''influxdb'' ?w)
     = Inl (GrafanaUnavailable
         \<lparr>message = e_message refused, datasourceType = None, datasourceUrl = None\<rparr>)"
    using m [where axios = "failing refused" and e = refused, OF f] by (simp add: refused_def)
  moreover have "fst (queryGrafana stub_URL (failing (http_failure 401)) stub_query ''key''
                        ''influxdb'' ?w)
     = Inl (Error (''Unauthorized. Check the API_KEY. '' @ e_message (http_failure 401)))"
    using m [where axios = "failing (http_failure 401)" and e = "http_failure 401", OF f]
    by (simp add: http_failure_def)
  moreover have "fst (queryGrafana stub_URL (failing (http_failure 502)) stub_query ''key''
                        ''influxdb'' ?w)
     = Inl (DatasourceUnavailable
          \<lparr>message = ''datasource '' @ ''/api/datasources/proxy/1/query''
                          @ '' unavailable, message: '' @ e_message (http_failure 502),
                      datasourceType = Some ''influxdb'', datasourceUrl = Some (url stub_query)\<rparr>)"
    using m [where axios = "failing (http_failure 502)" and e = "http_failure 502", OF f]
    by (simp add: http_failure_def)
  moreover have "fst (queryGrafana stub_URL (failing (http_failure 500)) stub_query ''key''
                        ''influxdb'' ?w)
     = Inl (Error (''Data kit: fail while request data: '' @ e_message (http_failure 500)))"
    using m [where axios = "failing (http_failure 500)" and e = "http_failure 500", OF f]
    by (simp add: http_failure_def)
  moreover have "fst (queryGrafana stub_URL (failing timed_out) stub_query ''key'' ''influxdb'' ?w)
     = Inl (Error (''Data kit: fail while request data: '' @ e_message timed_out))"
    using m [where axios = "failing timed_out" and e = timed_out, OF f] by (simp add: timed_out_def)
  ultimately show ?thesis
    by (simp add: refused_def http_failure_def timed_out_def stub_query_def
        number_401 number_502 number_500)
qed

lemma null_query_built:
  "(getQuery stub_metric 0 10 CHUNK_SIZE 0)
     \<lparr>url := ''null'' @ ''/'' @ url (getQuery stub_metric 0 10 CHUNK_SIZE 0)\<rparr> = null_query"
  by (simp add: stub_metric_def null_query_def)

lemma null_query_unparsable: "file_URL (url null_query) = None"
  by (simp add: file_URL_def stub_URL_def starts_with_def null_query_def)

lemma null_query_refused:
  "queryGrafana file_URL (failing refused) null_query ''key'' ''influxdb'' w
     = (Inl (TypeError ''Invalid URL''),
        w\<lparr>calls := calls w @ [(build_axiosQuery null_query ''key'', Inl refused)]\<rparr>)"
  by (simp add: queryGrafana_def classify_def failing_def null_query_unparsable Let_def)

text \<open>
  Claim C4 as stated fails. The \<^verbatim>\<open>catch\<close> block parses the query's URL before it looks at
  the failure, and where that URL does not parse the \<^verbatim>\<open>TypeError\<close> of \<^verbatim>\<open>new URL\<close> is what is
  thrown: for a refused connection no \<^verbatim>\<open>GrafanaUnavailable\<close> is raised. \<^verbatim>\<open>queryByMetric\<close>
  reaches this with the base URL \<^verbatim>\<open>file:///d/abc\<close>, which parses, has the origin \<^verbatim>\<open>null\<close>
  and so gives the query URL \<^verbatim>\<open>null/api/datasources/proxy/1/query\<close>.
\<close>

theorem unparsable_url_masks_failure:
  "errno refused = Some ''ECONNREFUSED''
   \<and> fst (queryGrafana file_URL (failing refused) null_query ''key'' ''influxdb''
          (world0 :: (nat \<times> nat, (int \<times> int) chunk) world))
       = Inl (TypeError ''Invalid URL'')
   \<and> fst (queryGrafana file_URL (failing refused) null_query ''key'' ''influxdb''
          (world0 :: (nat \<times> nat, (int \<times> int) chunk) world))
       \<noteq> Inl (GrafanaUnavailable
             \<lparr>message = e_message refused, datasourceType = None, datasourceUrl = None\<rparr>)
   \<and> getGrafanaUrl file_URL ''file:///d/abc'' = Inr ''null''
   \<and> queryByMetric file_URL (failing refused) stub_metric ''file:///d/abc'' 0 10 ''key'' world0
       = Some (Inl (TypeError ''Invalid URL''),
               \<lparr>calls = [(build_axiosQuery null_query ''key'', Inl refused)], console = []\<rparr>)"
proof -
  let ?w = "world0 :: (nat \<times> nat, (int \<times> int) chunk) world"
  have base: "getGrafanaUrl file_URL ''file:///d/abc'' = Inr ''null''"
    by (simp add: getGrafanaUrl_def file_URL_def starts_with_def panel_match_def group_at_def)
  have kind: "datasource_type stub_metric = ''influxdb''"
    by (simp add: stub_metric_def)
  have "paging file_URL (failing refused) stub_metric ''null'' 0 10 ''key''
          \<lparr>columns = [], values' = []\<rparr> ?w
        = Some (Inl (TypeError ''Invalid URL''),
                ?w\<lparr>calls := calls ?w @ [(build_axiosQuery null_query ''key'', Inl refused)]\<rparr>)"
    by (subst paging.simps)
      (simp add: Let_def null_query_built [simplified] null_query_refused kind)
  then have "queryByMetric file_URL (failing refused) stub_metric ''file:///d/abc'' 0 10 ''key'' ?w
        = Some (Inl (TypeError ''Invalid URL''),
               \<lparr>calls = [(build_axiosQuery null_query ''key'', Inl refused)], console = []\<rparr>)"
    by (simp add: queryByMetric_def base warn_equal_def world0_def)
  moreover have "errno refused = Some ''ECONNREFUSED''"
    by (simp add: refused_def)
  moreover have "fst (queryGrafana file_URL (failing refused) null_query ''key'' ''influxdb'' ?w)
                   = Inl (TypeError ''Invalid URL'')"
    by (simp add: null_query_refused)
  ultimately show ?thesis
    using base by simp
qed

text \<open>
  Claim C10. The \<^verbatim>\<open>GrafanaUnavailable\<close> raised for a refused connection carries the
  transport's message only, its \<^verbatim>\<open>datasourceType\<close> and \<^verbatim>\<open>datasourceUrl\<close> are unset;
  \<^verbatim>\<open>DatasourceUnavailable\<close> carries both.
\<close>

theorem unavailable_context:
  assumes "parse (url query) = Some p"
  shows "(errno e = Some ''ECONNREFUSED'' \<longrightarrow>
            (\<exists>d. fst (classify parse query ds e w) = GrafanaUnavailable d
                \<and> message d = e_message e
                \<and> datasourceType d = None \<and> datasourceUrl d = None))
       \<and> (errno e \<noteq> Some ''ECONNREFUSED'' \<and> (\<exists>r. response e = Some r \<and> status r = 502) \<longrightarrow>
            (\<exists>d. fst (classify parse query ds e w) = DatasourceUnavailable d
                \<and> datasourceType d = Some ds \<and> datasourceUrl d = Some (url query)))"
  using assms by (auto simp add: classify_def Let_def)

theorem unavailable_context_witness:
  "fst (classify stub_URL stub_query ''influxdb'' refused (world0 :: (nat \<times> nat, unit) world))
     = GrafanaUnavailable
         \<lparr>message = ''connect ECONNREFUSED 127.0.0.1:3000'',
          datasourceType = None, datasourceUrl = None\<rparr>
   \<and> (\<exists>msg. fst (classify stub_URL stub_query ''influxdb'' (http_failure 502)
                (world0 :: (nat \<times> nat, unit) world))
     = DatasourceUnavailable
         \<lparr>message = msg, datasourceType = Some ''influxdb'',
          datasourceUrl = Some ''https://host/api/datasources/proxy/1/query''\<rparr>)"
proof -
  let ?w = "world0 :: (nat \<times> nat, unit) world"
  have r: "errno refused = Some ''ECONNREFUSED''"
    by (simp add: refused_def)
  have h: "errno (http_failure 502) \<noteq> Some ''ECONNREFUSED''
             \<and> (\<exists>r. response (http_failure 502) = Some r \<and> status r = 502)"
    by (simp add: http_failure_def)
  obtain d where d: "fst (classify stub_URL stub_query ''influxdb'' refused ?w) = GrafanaUnavailable d"
      "message d = e_message refused" "datasourceType d = None" "datasourceUrl d = None"
    using unavailable_context [where parse = stub_URL and query = stub_query and e = refused
        and ds = "''influxdb''" and w = ?w, OF stub_query_parses] r by blast
  obtain d' where d': "fst (classify stub_URL stub_query ''influxdb'' (http_failure 502) ?w)
        = DatasourceUnavailable d'"
      "datasourceType d' = Some ''influxdb''" "datasourceUrl d' = Some (url stub_query)"
    using unavailable_context [where parse = stub_URL and query = stub_query
        and e = "http_failure 502" and ds = "''influxdb''" and w = ?w, OF stub_query_parses] h
    by blast
  have "d = \<lparr>message = ''connect ECONNREFUSED 127.0.0.1:3000'',
          datasourceType = None, datasourceUrl = None\<rparr>"
    using d(2-4) by (cases d) (simp add: refused_def)
  moreover have "d' = \<lparr>message = message d', datasourceType = Some ''influxdb'',
          datasourceUrl = Some ''https://host/api/datasources/proxy/1/query''\<rparr>"
    using d'(2,3) by (cases d') (simp add: stub_query_def)
  ultimately show ?thesis
    using d(1) d'(1) by metis
qed

section \<open>Request headers\<close>

lemma classify_calls: "calls (snd (classify parse query ds e w)) = calls w"
  by (simp add: classify_def Let_def split: option.splits)

lemma queryGrafana_calls:
  "calls (snd (queryGrafana parse axios query key ds w))
     = calls w @ [(build_axiosQuery query key, axios (calls w) (build_axiosQuery query key))]"
  using classify_calls [of parse query ds _ "w\<lparr>calls := calls w @ [(build_axiosQuery query key, axios (calls w) (build_axiosQuery query key))]\<rparr>"]
  by (simp add: queryGrafana_def Let_def split: sum.splits prod.splits)
    (metis snd_conv)

text \<open>
  Claim C8, as amended. Every call of \<^verbatim>\<open>queryGrafana\<close> sends exactly one request, and that
  request has an \<^verbatim>\<open>Authorization\<close> header. Its value is \<^verbatim>\<open>Bearer\<close> and the API key when the
  query builder's headers are absent or have no \<^verbatim>\<open>Authorization\<close> entry; when they have one,
  the merge puts the query builder's value in its place.
\<close>

theorem bearer_header:
  "calls (snd (queryGrafana parse axios query key ds w))
     = calls w @ [(build_axiosQuery query key, axios (calls w) (build_axiosQuery query key))]
   \<and> ax_headers (build_axiosQuery query key) ''Authorization'' \<noteq> None
   \<and> (headers query = None \<or> (\<exists>qh. headers query = Some qh \<and> qh ''Authorization'' = None)
        \<longrightarrow> ax_headers (build_axiosQuery query key) ''Authorization'' = Some (''Bearer '' @ key))
   \<and> (\<forall>qh v. headers query = Some qh \<and> qh ''Authorization'' = Some v
        \<longrightarrow> ax_headers (build_axiosQuery query key) ''Authorization'' = Some v)"
  by (auto simp add: queryGrafana_calls build_axiosQuery_def merge_def Let_def map_add_def
      split: option.splits)

theorem bearer_header_witness:
  "ax_headers (build_axiosQuery stub_query ''key'') ''Authorization'' = Some ''Bearer key''
   \<and> ax_headers (build_axiosQuery (stub_query\<lparr>headers := Some accept_headers\<rparr>) ''key'')
        ''Authorization'' = Some ''Bearer key''
   \<and> ax_headers (build_axiosQuery (stub_query\<lparr>headers := Some basic_headers\<rparr>) ''key'')
        ''Authorization'' = Some ''Basic abc''"
proof -
  have a: "headers stub_query = None"
    by (simp add: stub_query_def)
  have b: "\<exists>qh. headers (stub_query\<lparr>headers := Some accept_headers\<rparr>) = Some qh
             \<and> qh ''Authorization'' = None"
    by (simp add: accept_headers_def)
  have c: "headers (stub_query\<lparr>headers := Some basic_headers\<rparr>) = Some basic_headers
             \<and> basic_headers ''Authorization'' = Some ''Basic abc''"
    by (simp add: basic_headers_def)
  show ?thesis
    using bearer_header [of stub_URL three_pages stub_query "''key''" "''influxdb''" world0] a
      bearer_header [of stub_URL three_pages "stub_query\<lparr>headers := Some accept_headers\<rparr>"
        "''key''" "''influxdb''" world0] b
      bearer_header [of stub_URL three_pages "stub_query\<lparr>headers := Some basic_headers\<rparr>"
        "''key''" "''influxdb''" world0] c
    by simp
qed

text \<open>
  Claim C8 as stated fails: a query builder that supplies its own \<^verbatim>\<open>Authorization\<close> header
  replaces the bearer credential in the request that is sent.
\<close>

theorem bearer_overridden:
  "ax_headers
     (fst (last (calls (snd (queryGrafana stub_URL three_pages
        (stub_query\<lparr>headers := Some basic_headers\<rparr>) ''key'' ''influxdb'' world0)))))
     ''Authorization'' = Some ''Basic abc''
   \<and> ax_headers
     (fst (last (calls (snd (queryGrafana stub_URL three_pages
        (stub_query\<lparr>headers := Some basic_headers\<rparr>) ''key'' ''influxdb'' world0)))))
     ''Authorization'' \<noteq> Some ''Bearer key''"
  by (simp add: queryGrafana_calls build_axiosQuery_def merge_def basic_headers_def)


section \<open>The aggregate fetch\<close>

lemma queryGrafana_success:
  "axios (calls w) (build_axiosQuery query key) = Inr res \<Longrightarrow>
   queryGrafana parse axios query key ds w
     = (Inr res, w\<lparr>calls := calls w @ [(build_axiosQuery query key, Inr res)]\<rparr>)"
  by (simp add: queryGrafana_def Let_def)

lemma chunk_overwrite:
  "(acc :: 'v chunk)\<lparr>values' := vs, columns := cs\<rparr> = \<lparr>columns = cs, values' = vs\<rparr>"
  by (cases acc) simp

lemma paging_step:
  assumes "axios (calls w) (page_request m g from to key (length (values' acc))) = Inr res"
  shows "paging parse axios m g from to key acc w =
           (if length (values' (getResults m res)) < CHUNK_SIZE
            then Some (Inr (merge_page acc (getResults m res)),
                       w\<lparr>calls := calls w
                            @ [(page_request m g from to key (length (values' acc)), Inr res)]\<rparr>)
            else paging parse axios m g from to key (merge_page acc (getResults m res))
                   (w\<lparr>calls := calls w
                        @ [(page_request m g from to key (length (values' acc)), Inr res)]\<rparr>))"
  using assms
  by (subst paging.simps)
    (simp add: Let_def page_request_def merge_page_def queryGrafana_success chunk_overwrite)



lemma three_page_run:
  fixes m :: "('s, 'r, 'v) Metric" and axios :: "('s, 'r) transport" and w :: "('s, 'r) world"
  assumes "from \<le> to" and "getGrafanaUrl parse u = Inr g"
    and "axios (calls w) (page_request m g from to key 0) = Inr r1"
    and "length (values' (getResults m r1)) = CHUNK_SIZE"
    and "axios (calls w @ [(page_request m g from to key 0, Inr r1)])
           (page_request m g from to key CHUNK_SIZE) = Inr r2"
    and "length (values' (getResults m r2)) = CHUNK_SIZE"
    and "axios (calls w @ [(page_request m g from to key 0, Inr r1),
                           (page_request m g from to key CHUNK_SIZE, Inr r2)])
           (page_request m g from to key (2 * CHUNK_SIZE)) = Inr r3"
    and "length (values' (getResults m r3)) < CHUNK_SIZE"
  shows "queryByMetric parse axios m u from to key w
           = Some (Inr \<lparr>columns = columns (getResults m r3),
                         values' = values' (getResults m r1) @ values' (getResults m r2)
                                     @ values' (getResults m r3)\<rparr>,
                   (warn_equal from to w)
                     \<lparr>calls := calls w @ [(page_request m g from to key 0, Inr r1),
                                         (page_request m g from to key CHUNK_SIZE, Inr r2),
                                         (page_request m g from to key (2 * CHUNK_SIZE), Inr r3)]\<rparr>)"
proof -
  let ?rq = "page_request m g from to key"
  let ?w0 = "warn_equal from to w"
  let ?e = "\<lparr>columns = [], values' = []\<rparr> :: 'v chunk"
  have cw: "calls ?w0 = calls w"
    by (simp add: warn_equal_def)
  let ?a1 = "merge_page ?e (getResults m r1)"
  let ?w1 = "?w0\<lparr>calls := calls ?w0 @ [(?rq 0, Inr r1)]\<rparr>"
  let ?a2 = "merge_page ?a1 (getResults m r2)"
  let ?w2 = "?w1\<lparr>calls := calls ?w1 @ [(?rq CHUNK_SIZE, Inr r2)]\<rparr>"
  let ?a3 = "merge_page ?a2 (getResults m r3)"
  let ?w3 = "?w2\<lparr>calls := calls ?w2 @ [(?rq (2 * CHUNK_SIZE), Inr r3)]\<rparr>"
  have s1: "paging parse axios m g from to key ?e ?w0
              = paging parse axios m g from to key ?a1 ?w1"
    using assms paging_step [of axios ?w0 m g "from" to key ?e r1 parse] cw by simp
  have l1: "length (values' ?a1) = CHUNK_SIZE"
    using assms by (simp add: merge_page_def)
  have s2: "paging parse axios m g from to key ?a1 ?w1
              = paging parse axios m g from to key ?a2 ?w2"
    using assms paging_step [of axios ?w1 m g "from" to key ?a1 r2 parse] cw l1 by simp
  have l2: "length (values' ?a2) = 2 * CHUNK_SIZE"
    using assms by (simp add: merge_page_def)
  have s3: "paging parse axios m g from to key ?a2 ?w2 = Some (Inr ?a3, ?w3)"
    using assms paging_step [of axios ?w2 m g "from" to key ?a2 r3 parse] cw l2 by simp
  have "queryByMetric parse axios m u from to key w = Some (Inr ?a3, ?w3)"
    using assms s1 s2 s3 by (simp add: queryByMetric_def)
  then show ?thesis
    using cw by (simp add: merge_page_def)
qed

text \<open>
  Claim C2. On every successful round trip the loop, having asked for the page at the offset
  equal to the number of rows accumulated so far, returns when the page has fewer than
  \<open>CHUNK_SIZE\<close> rows and otherwise goes on with the page appended. For a backend answering
  the offsets \<open>0\<close>, \<open>CHUNK_SIZE\<close> and \<open>2 * CHUNK_SIZE\<close> with pages of \<open>CHUNK_SIZE\<close>,
  \<open>CHUNK_SIZE\<close> and 37 rows, the fetch returns the three pages' rows in arrival order,
  \<open>2 * CHUNK_SIZE + 37\<close> of them, after exactly three transport requests.
\<close>

theorem pagination_termination:
  fixes m :: "('s, 'r, 'v) Metric" and axios :: "('s, 'r) transport" and w :: "('s, 'r) world"
  shows
  "(\<forall>acc w res.
      axios (calls w) (page_request m g from to key (length (values' acc))) = Inr res \<longrightarrow>
      paging parse axios m g from to key acc w =
        (if length (values' (getResults m res)) < CHUNK_SIZE
         then Some (Inr (merge_page acc (getResults m res)),
                    w\<lparr>calls := calls w
                         @ [(page_request m g from to key (length (values' acc)), Inr res)]\<rparr>)
         else paging parse axios m g from to key (merge_page acc (getResults m res))
                (w\<lparr>calls := calls w
                     @ [(page_request m g from to key (length (values' acc)), Inr res)]\<rparr>)))
   \<and> (from \<le> to \<and> getGrafanaUrl parse u = Inr g
        \<and> axios (calls w) (page_request m g from to key 0) = Inr r1
        \<and> length (values' (getResults m r1)) = CHUNK_SIZE
        \<and> axios (calls w @ [(page_request m g from to key 0, Inr r1)])
              (page_request m g from to key CHUNK_SIZE) = Inr r2
        \<and> length (values' (getResults m r2)) = CHUNK_SIZE
        \<and> axios (calls w @ [(page_request m g from to key 0, Inr r1),
                              (page_request m g from to key CHUNK_SIZE, Inr r2)])
              (page_request m g from to key (2 * CHUNK_SIZE)) = Inr r3
        \<and> length (values' (getResults m r3)) = 37
      \<longrightarrow> (\<exists>d w'. queryByMetric parse axios m u from to key w = Some (Inr d, w')
             \<and> values' d = values' (getResults m r1) @ values' (getResults m r2)
                              @ values' (getResults m r3)
             \<and> length (values' d) = 2 * CHUNK_SIZE + 37
             \<and> calls w' = calls w @ [(page_request m g from to key 0, Inr r1),
                                      (page_request m g from to key CHUNK_SIZE, Inr r2),
                                      (page_request m g from to key (2 * CHUNK_SIZE), Inr r3)]
             \<and> length (calls w') = length (calls w) + 3))"
proof (intro conjI allI impI)
  fix acc :: "'v chunk" and w :: "('s, 'r) world" and res
  assume "axios (calls w) (page_request m g from to key (length (values' acc))) = Inr res"
  then show "paging parse axios m g from to key acc w =
        (if length (values' (getResults m res)) < CHUNK_SIZE
         then Some (Inr (merge_page acc (getResults m res)),
                    w\<lparr>calls := calls w
                         @ [(page_request m g from to key (length (values' acc)), Inr res)]\<rparr>)
         else paging parse axios m g from to key (merge_page acc (getResults m res))
                (w\<lparr>calls := calls w
                     @ [(page_request m g from to key (length (values' acc)), Inr res)]\<rparr>))"
    by (rule paging_step)
next
  let ?rq = "page_request m g from to key"
  assume h: "from \<le> to \<and> getGrafanaUrl parse u = Inr g
        \<and> axios (calls w) (?rq 0) = Inr r1
        \<and> length (values' (getResults m r1)) = CHUNK_SIZE
        \<and> axios (calls w @ [(?rq 0, Inr r1)]) (?rq CHUNK_SIZE) = Inr r2
        \<and> length (values' (getResults m r2)) = CHUNK_SIZE
        \<and> axios (calls w @ [(?rq 0, Inr r1), (?rq CHUNK_SIZE, Inr r2)])
              (?rq (2 * CHUNK_SIZE)) = Inr r3
        \<and> length (values' (getResults m r3)) = 37"
  then have "length (values' (getResults m r3)) < CHUNK_SIZE"
    by (simp add: CHUNK_SIZE_def)
  with h have "queryByMetric parse axios m u from to key w
           = Some (Inr \<lparr>columns = columns (getResults m r3),
                         values' = values' (getResults m r1) @ values' (getResults m r2)
                                     @ values' (getResults m r3)\<rparr>,
                   (warn_equal from to w)
                     \<lparr>calls := calls w @ [(?rq 0, Inr r1), (?rq CHUNK_SIZE, Inr r2),
                                         (?rq (2 * CHUNK_SIZE), Inr r3)]\<rparr>)"
    by (intro three_page_run) simp_all
  with h show "\<exists>d w'. queryByMetric parse axios m u from to key w = Some (Inr d, w')
             \<and> values' d = values' (getResults m r1) @ values' (getResults m r2)
                              @ values' (getResults m r3)
             \<and> length (values' d) = 2 * CHUNK_SIZE + 37
             \<and> calls w' = calls w @ [(?rq 0, Inr r1), (?rq CHUNK_SIZE, Inr r2),
                                      (?rq (2 * CHUNK_SIZE), Inr r3)]
             \<and> length (calls w') = length (calls w) + 3"
    by simp
qed

lemma stub_request_eq:
  "page_request stub_metric ''https://host'' from to ''key'' offset = stub_request offset"
  by (simp add: page_request_def build_axiosQuery_def stub_metric_def stub_request_def)

lemma stub_base: "getGrafanaUrl stub_URL ''https://host/d/abc'' = Inr ''https://host''"
  by (simp add: getGrafanaUrl_def stub_URL_def starts_with_def panel_match_def group_at_def)

lemma three_pages_answers:
  "three_pages history (stub_request 0) = Inr page_a"
  "three_pages history (stub_request CHUNK_SIZE) = Inr page_b"
  "three_pages history (stub_request (2 * CHUNK_SIZE)) = Inr page_c"
  by (simp_all add: three_pages_def stub_request_def CHUNK_SIZE_def)

lemma page_lengths:
  "length (values' (getResults stub_metric page_a)) = CHUNK_SIZE"
  "length (values' (getResults stub_metric page_b)) = CHUNK_SIZE"
  "length (values' (getResults stub_metric page_c)) = 37"
  by (simp_all add: stub_metric_def page_a_def page_b_def page_c_def)

theorem pagination_termination_witness:
  "three_pages (calls world0) (stub_request 0) = Inr page_a
   \<and> length (values' page_a) = CHUNK_SIZE \<and> length (values' page_b) = CHUNK_SIZE
   \<and> length (values' page_c) = 37
   \<and> (\<exists>d w'. queryByMetric stub_URL three_pages stub_metric ''https://host/d/abc'' 0 10 ''key''
                 world0 = Some (Inr d, w')
         \<and> values' d = values' page_a @ values' page_b @ values' page_c
         \<and> length (values' d) = 2 * CHUNK_SIZE + 37
         \<and> calls w' = [(stub_request 0, Inr page_a), (stub_request CHUNK_SIZE, Inr page_b),
                        (stub_request (2 * CHUNK_SIZE), Inr page_c)]
         \<and> length (calls w') = 3)
   \<and> paging stub_URL three_pages stub_metric ''https://host'' 0 10 ''key''
        \<lparr>columns = [], values' = []\<rparr> world0
       = paging stub_URL three_pages stub_metric ''https://host'' 0 10 ''key''
           page_a (world0\<lparr>calls := [(stub_request 0, Inr page_a)]\<rparr>)"
proof -
  have g: "getResults stub_metric = (\<lambda>res. res)"
    by (simp add: stub_metric_def)
  note t = pagination_termination [where parse = stub_URL and axios = three_pages
      and m = stub_metric and g = "''https://host''" and u = "''https://host/d/abc''"
      and ?from = 0 and to = 10 and key = "''key''" and w = world0
      and ?r1.0 = page_a and ?r2.0 = page_b and ?r3.0 = page_c]
  have first: "paging stub_URL three_pages stub_metric ''https://host'' 0 10 ''key''
        \<lparr>columns = [], values' = []\<rparr> world0
       = paging stub_URL three_pages stub_metric ''https://host'' 0 10 ''key''
           page_a (world0\<lparr>calls := [(stub_request 0, Inr page_a)]\<rparr>)"
    using t [THEN conjunct1, rule_format, of world0 "\<lparr>columns = [], values' = []\<rparr>" page_a]
      three_pages_answers(1) page_lengths(1)
    by (simp add: stub_request_eq g world0_def merge_page_def page_a_def)
  have "\<exists>d w'. queryByMetric stub_URL three_pages stub_metric ''https://host/d/abc'' 0 10 ''key''
                 world0 = Some (Inr d, w')
         \<and> values' d = values' page_a @ values' page_b @ values' page_c
         \<and> length (values' d) = 2 * CHUNK_SIZE + 37
         \<and> calls w' = [(stub_request 0, Inr page_a), (stub_request CHUNK_SIZE, Inr page_b),
                        (stub_request (2 * CHUNK_SIZE), Inr page_c)]
         \<and> length (calls w') = 3"
    using t [THEN conjunct2] stub_base three_pages_answers page_lengths
    by (simp add: stub_request_eq g world0_def)
  then show ?thesis
    using first three_pages_answers(1) page_lengths by (simp add: g)
qed






lemma paging_last_call:
  fixes m :: "('s, 'r, 'v) Metric" and axios :: "('s, 'r) transport" and w :: "('s, 'r) world"
  assumes "paging parse axios m g from to key acc w = Some (Inr d, w')"
  shows "\<exists>earlier req res. calls w' = calls w @ earlier @ [(req, Inr res)]
           \<and> columns d = columns (getResults m res)"
proof -
  have "\<forall>d w'. y = (Inr d, w') \<longrightarrow>
          (\<exists>earlier req res. calls w' = calls w @ earlier @ [(req, Inr res)]
             \<and> columns d = columns (getResults m res))"
    if "paging parse axios m g from to key acc w = Some y" for y
    using that
  proof (induct rule: paging.raw_induct [rotated, consumes 1])
    case (1 loop parse axios m g "from" to key acc w y)
    let ?rq = "page_request m g from to key (length (values' acc))"
    show ?case
    proof (cases "axios (calls w) ?rq")
      case (Inl e)
      then have "\<exists>err w''. y = (Inl err, w'')"
        using 1(2) by (auto simp add: Let_def page_request_def queryGrafana_def split: prod.splits)
      then show ?thesis by auto
    next
      case (Inr res)
      let ?w1 = "w\<lparr>calls := calls w @ [(?rq, Inr res)]\<rparr>"
      let ?a1 = "merge_page acc (getResults m res)"
      have q: "queryGrafana parse axios
                 ((getQuery m from to CHUNK_SIZE (length (values' acc)))
                    \<lparr>url := g @ ''/'' @ url (getQuery m from to CHUNK_SIZE (length (values' acc)))\<rparr>)
                 key (datasource_type m) w = (Inr res, ?w1)"
        using Inr queryGrafana_success [of axios w _ key res parse "datasource_type m"]
        by (simp add: page_request_def)
      show ?thesis
      proof (cases "length (values' (getResults m res)) < CHUNK_SIZE")
        case True
        then have "y = (Inr ?a1, ?w1)"
          using 1(2) q by (simp add: Let_def merge_page_def chunk_overwrite)
        then show ?thesis
          by (auto simp add: merge_page_def)
      next
        case False
        then have "loop parse axios m g from to key ?a1 ?w1 = Some y"
          using 1(2) q by (simp add: Let_def merge_page_def chunk_overwrite)
        note ih = 1(1) [OF this]
        show ?thesis
          using ih by (auto simp add: append_assoc)
      qed
    qed
  qed
  with assms show ?thesis by blast
qed



text \<open>
  Claim C9. Whenever the aggregate fetch returns a result, the result's columns are those
  of the page returned by the last transport exchange of the fetch, whatever the columns of
  the pages before it: each iteration overwrites them.
\<close>

theorem columns_of_last_page:
  fixes m :: "('s, 'r, 'v) Metric" and axios :: "('s, 'r) transport" and w :: "('s, 'r) world"
  assumes "queryByMetric parse axios m u from to key w = Some (Inr d, w')"
  shows "\<exists>earlier req res. calls w' = calls w @ earlier @ [(req, Inr res)]
           \<and> columns d = columns (getResults m res)"
proof -
  have "\<not> from > to"
    using assms by (auto simp add: queryByMetric_def)
  then obtain g where "paging parse axios m g from to key \<lparr>columns = [], values' = []\<rparr>
                         (warn_equal from to w) = Some (Inr d, w')"
    using assms by (auto simp add: queryByMetric_def Let_def split: sum.splits)
  then have "\<exists>earlier req res. calls w' = calls (warn_equal from to w) @ earlier @ [(req, Inr res)]
           \<and> columns d = columns (getResults m res)"
    by (rule paging_last_call)
  moreover have "calls (warn_equal from to w) = calls w"
    by (simp add: warn_equal_def)
  ultimately show ?thesis
    by simp
qed

lemma three_pages_fetch:
  "queryByMetric stub_URL three_pages stub_metric ''https://host/d/abc'' 0 10 ''key'' world0
     = Some (Inr \<lparr>columns = [''time'', ''c''],
                   values' = values' page_a @ values' page_b @ values' page_c\<rparr>,
             \<lparr>calls = [(stub_request 0, Inr page_a), (stub_request CHUNK_SIZE, Inr page_b),
                       (stub_request (2 * CHUNK_SIZE), Inr page_c)],
              console = []\<rparr>)"
proof -
  have g: "getResults stub_metric = (\<lambda>res. res)"
    by (simp add: stub_metric_def)
  have "length (values' (getResults stub_metric page_c)) < CHUNK_SIZE"
    by (simp add: page_lengths CHUNK_SIZE_def)
  then show ?thesis
    using three_page_run [where parse = stub_URL and axios = three_pages
      and m = stub_metric and g = "''https://host''" and u = "''https://host/d/abc''"
      and ?from = 0 and to = 10 and key = "''key''" and w = world0
      and ?r1.0 = page_a and ?r2.0 = page_b and ?r3.0 = page_c]
      stub_base three_pages_answers page_lengths
    by (simp add: stub_request_eq g world0_def warn_equal_def page_c_def)
qed

theorem columns_of_last_page_witness:
  "columns page_a = [''time'', ''a''] \<and> columns page_b = [''time'', ''b'']
   \<and> queryByMetric stub_URL three_pages stub_metric ''https://host/d/abc'' 0 10 ''key'' world0
     = Some (Inr \<lparr>columns = [''time'', ''c''],
                   values' = values' page_a @ values' page_b @ values' page_c\<rparr>,
             \<lparr>calls = [(stub_request 0, Inr page_a), (stub_request CHUNK_SIZE, Inr page_b),
                       (stub_request (2 * CHUNK_SIZE), Inr page_c)],
              console = []\<rparr>)
   \<and> (\<exists>earlier req res.
         [(stub_request 0, Inr page_a), (stub_request CHUNK_SIZE, Inr page_b),
          (stub_request (2 * CHUNK_SIZE), Inr page_c)] = earlier @ [(req, Inr res)]
         \<and> [''time'', ''c''] = columns (getResults stub_metric res))"
  using columns_of_last_page [OF three_pages_fetch] three_pages_fetch
  by (simp add: world0_def page_a_def page_b_def)


section \<open>The stream\<close>

lemma concat_loop_keeps: "concat_loop chunk buf = buf"
proof -
  have "foldl (\<lambda>cur value. cur) buf vs = buf" for vs :: "'a list"
    by (induction vs) simp_all
  then show ?thesis
    by (simp add: concat_loop_def Let_def)
qed

lemma push_shift_buffer:
  "length (currentChunk (obj (push_shift st))) \<le> length (currentChunk (obj st))"
  by (simp add: push_shift_def split: list.splits)

lemma push_shift_gen: "gen (push_shift st) = gen st"
  by (simp add: push_shift_def split: list.splits)

lemma push_loop_buffer:
  "length (currentChunk (obj (push_loop n st))) \<le> length (currentChunk (obj st))"
proof (induction n arbitrary: st)
  case 0
  show ?case by simp
next
  case (Suc n)
  have "length (currentChunk (obj (push_loop n (push_shift st))))
          \<le> length (currentChunk (obj (push_shift st)))"
    by (rule Suc.IH)
  also have "\<dots> \<le> length (currentChunk (obj st))"
    by (rule push_shift_buffer)
  finally show ?case by simp
qed

lemma push_loop_gen: "gen (push_loop n st) = gen st"
  by (induction n arbitrary: st) (simp_all add: push_shift_gen)

lemma read_buffer:
  "length (currentChunk (obj (fst (snd (read parse axios from to n (st, w))))))
     \<le> length (currentChunk (obj st))"
proof (cases "length (currentChunk (obj st)) < n")
  case False
  then show ?thesis
    by (simp add: read_def push_loop_buffer)
next
  case True
  obtain r g' w' where g: "gen_next parse axios (obj st) from to (gen st) w = (r, g', w')"
    by (cases "gen_next parse axios (obj st) from to (gen st) w") auto
  show ?thesis
  proof (cases r)
    case (Inl e)
    with True g show ?thesis by (simp add: read_def)
  next
    case (Inr v)
    show ?thesis
    proof (cases v)
      case None
      with True g Inr show ?thesis by (simp add: read_def)
    next
      case (Some chunk)
      have "length (currentChunk (obj (push_loop n
                (st\<lparr>obj := (obj st)\<lparr>currentChunk := currentChunk (obj st)\<rparr>, gen := g'\<rparr>))))
              \<le> length (currentChunk (obj
                (st\<lparr>obj := (obj st)\<lparr>currentChunk := currentChunk (obj st)\<rparr>, gen := g'\<rparr>)))"
        by (rule push_loop_buffer)
      with True g Inr Some show ?thesis
        by (simp add: read_def concat_loop_keeps)
    qed
  qed
qed

lemma pulls_buffer:
  "length (currentChunk (obj (fst (pulls parse axios from to ns sw))))
     \<le> length (currentChunk (obj (fst sw)))"
proof (induction ns arbitrary: sw)
  case Nil
  show ?case by simp
next
  case (Cons n ns)
  obtain st w where sw: "sw = (st, w)"
    by (cases sw)
  have "length (currentChunk (obj (fst (pulls parse axios from to ns
            (snd (read parse axios from to n sw))))))
          \<le> length (currentChunk (obj (fst (snd (read parse axios from to n sw)))))"
    by (rule Cons.IH)
  also have "\<dots> \<le> length (currentChunk (obj (fst sw)))"
    unfolding sw using read_buffer [of parse axios "from" to n st w] by simp
  finally show ?case by simp
qed

lemma read_idle:
  assumes "\<not> length (currentChunk (obj st)) < n"
  shows "gen (fst (snd (read parse axios from to n (st, w)))) = gen st"
    and "snd (snd (read parse axios from to n (st, w))) = w"
  using assms by (simp_all add: read_def push_loop_gen)

text \<open>
  Claim C3. For a handle obtained from \<^verbatim>\<open>query\<close> on a newly constructed stream, after
  every sequence of pulls and whatever the transport answers, the buffer \<^verbatim>\<open>currentChunk\<close>
  holds at most \<open>CHUNK_SIZE\<close> points; and a pull whose size does not exceed the number of
  buffered points neither resumes the generator nor touches the transport.
\<close>

theorem backpressure_bound:
  assumes "new_DatasourceStream parse m u key = Inr this"
    and "stream_query this from to w = (Inr st, w0)"
  shows "length (currentChunk (obj (fst (pulls parse axios from to ns (st, w0))))) \<le> CHUNK_SIZE
       \<and> (\<forall>st' w' n. \<not> length (currentChunk (obj st')) < n \<longrightarrow>
             gen (fst (snd (read parse axios from to n (st', w')))) = gen st'
           \<and> snd (snd (read parse axios from to n (st', w'))) = w')"
proof -
  have "currentChunk this = []"
    using assms(1) by (auto simp add: new_DatasourceStream_def split: sum.splits)
  moreover have "obj st = this"
    using assms(2) by (auto simp add: stream_query_def split: if_splits)
  ultimately have "length (currentChunk (obj (fst (st, w0)))) = 0"
    by simp
  then have "length (currentChunk (obj (fst (pulls parse axios from to ns (st, w0))))) = 0"
    using pulls_buffer [of parse axios "from" to ns "(st, w0)"] by simp
  then show ?thesis
    using read_idle by (metis (no_types) zero_le)
qed

lemma stub_stream_new:
  "new_DatasourceStream stub_URL stub_metric ''https://host/d/abc'' ''key'' = Inr stub_stream"
  by (simp add: new_DatasourceStream_def stub_base stub_stream_def)

lemma stub_handle_query: "stream_query stub_stream 0 10 world0 = (Inr stub_handle, world0)"
  by (simp add: stream_query_def stub_handle_def warn_equal_def)

theorem backpressure_bound_witness:
  "new_DatasourceStream stub_URL stub_metric ''https://host/d/abc'' ''key'' = Inr stub_stream
   \<and> stream_query stub_stream 0 10 world0 = (Inr stub_handle, world0)
   \<and> length (currentChunk (obj (fst (pulls stub_URL two_pages 0 10 [1, 1, 3]
         (stub_handle, world0))))) \<le> CHUNK_SIZE
   \<and> \<not> length (currentChunk (obj stub_handle)) < 0
   \<and> gen (fst (snd (read stub_URL two_pages 0 10 0 (stub_handle, world0)))) = gen stub_handle
   \<and> snd (snd (read stub_URL two_pages 0 10 0 (stub_handle, world0))) = world0"
proof -
  note b = backpressure_bound [where parse = stub_URL and m = stub_metric
      and u = "''https://host/d/abc''" and key = "''key''" and this = stub_stream
      and ?from = 0 and to = 10 and w = world0 and st = stub_handle and ?w0.0 = world0
      and axios = two_pages and ns = "[1, 1, 3]", OF stub_stream_new stub_handle_query]
  have idle: "\<not> length (currentChunk (obj stub_handle)) < 0"
    by simp
  have "gen (fst (snd (read stub_URL two_pages 0 10 0 (stub_handle, world0)))) = gen stub_handle
      \<and> snd (snd (read stub_URL two_pages 0 10 0 (stub_handle, world0))) = world0"
    using b [THEN conjunct2, rule_format, of stub_handle 0 world0] idle by blast
  then show ?thesis
    using b [THEN conjunct1] stub_stream_new stub_handle_query by simp
qed


lemma two_pages_answers:
  "two_pages history (stub_request 0) = Inr page_a"
  "two_pages history (stub_request CHUNK_SIZE) = Inr page_last"
  by (simp_all add: two_pages_def stub_request_def CHUNK_SIZE_def)

lemma two_pages_fetch:
  "queryByMetric stub_URL two_pages stub_metric ''https://host/d/abc'' 0 10 ''key'' world0
     = Some (Inr \<lparr>columns = [''time'', ''a''], values' = values' page_a @ values' page_last\<rparr>,
             \<lparr>calls = [(stub_request 0, Inr page_a), (stub_request CHUNK_SIZE, Inr page_last)],
              console = []\<rparr>)"
proof -
  let ?e = "\<lparr>columns = [], values' = []\<rparr> :: (int \<times> int) chunk"
  let ?w0 = "world0 :: (nat \<times> nat, (int \<times> int) chunk) world"
  let ?w1 = "?w0\<lparr>calls := calls ?w0 @ [(stub_request 0, Inr page_a)]\<rparr>"
  let ?w2 = "?w1\<lparr>calls := calls ?w1 @ [(stub_request CHUNK_SIZE, Inr page_last)]\<rparr>"
  have g: "getResults stub_metric = (\<lambda>res. res)"
    by (simp add: stub_metric_def)
  have full: "length (values' page_a) = CHUNK_SIZE"
    by (simp add: page_a_def)
  have short: "length (values' page_last) < CHUNK_SIZE"
    by (simp add: page_last_def CHUNK_SIZE_def)
  have "paging stub_URL two_pages stub_metric ''https://host'' 0 10 ''key'' ?e ?w0
          = paging stub_URL two_pages stub_metric ''https://host'' 0 10 ''key''
              (merge_page ?e page_a) ?w1"
    using paging_step [of two_pages ?w0 stub_metric "''https://host''" 0 10 "''key''" ?e page_a
        stub_URL] full
    by (simp add: stub_request_eq two_pages_answers g)
  also have "\<dots> = Some (Inr (merge_page (merge_page ?e page_a) page_last), ?w2)"
    using paging_step [of two_pages ?w1 stub_metric "''https://host''" 0 10 "''key''"
        "merge_page ?e page_a" page_last stub_URL] full short
    by (simp add: stub_request_eq two_pages_answers g merge_page_def)
  finally show ?thesis
    by (simp add: queryByMetric_def stub_base warn_equal_def merge_page_def world0_def
        page_last_def)
qed

lemma stub_body:
  "query_body stub_URL two_pages stub_stream 0 10 w
     = (Inr (Some page_a), Suspended page_a,
        w\<lparr>calls := calls w @ [(stub_request 0, Inr page_a)]\<rparr>)"
proof -
  have "queryGrafana stub_URL two_pages
          ((getQuery stub_metric 0 10 CHUNK_SIZE 0)
             \<lparr>url := ''https://host'' @ ''/'' @ url (getQuery stub_metric 0 10 CHUNK_SIZE 0)\<rparr>)
          ''key'' ''influxdb'' w
        = (Inr page_a, w\<lparr>calls := calls w @ [(stub_request 0, Inr page_a)]\<rparr>)"
    using queryGrafana_success [of two_pages w
        "(getQuery stub_metric 0 10 CHUNK_SIZE 0)
           \<lparr>url := ''https://host'' @ ''/'' @ url (getQuery stub_metric 0 10 CHUNK_SIZE 0)\<rparr>"
        "''key''" page_a stub_URL "''influxdb''"]
      stub_request_eq [of 0 10 0, unfolded page_request_def] two_pages_answers(1)
    by simp
  moreover have "datasource_type stub_metric = ''influxdb''"
    and "getResults stub_metric page_a = page_a"
    by (simp_all add: stub_metric_def)
  ultimately show ?thesis
    by (simp add: query_body_def stub_stream_def Let_def)
qed

lemma delivered_undefined: "delivered (st\<lparr>pushed := pushed st @ [None]\<rparr>) = delivered st"
  by (simp add: delivered_def List.map_filter_def)

lemma push_loop_empty:
  assumes "currentChunk (obj st) = []"
  shows "currentChunk (obj (push_loop n st)) = [] \<and> delivered (push_loop n st) = delivered st"
  using assms
proof (induction n arbitrary: st)
  case 0
  then show ?case by simp
next
  case (Suc n)
  have "push_shift st = st\<lparr>pushed := pushed st @ [None]\<rparr>"
    using Suc.prems by (simp add: push_shift_def)
  moreover have "currentChunk (obj (st\<lparr>pushed := pushed st @ [None]\<rparr>)) = []"
    using Suc.prems by simp
  ultimately show ?case
    using Suc.IH [of "st\<lparr>pushed := pushed st @ [None]\<rparr>"] delivered_undefined [of st]
    by simp
qed

lemma read_empty:
  assumes "currentChunk (obj st) = []"
  shows "currentChunk (obj (fst (snd (read parse axios from to n (st, w))))) = []
       \<and> delivered (fst (snd (read parse axios from to n (st, w)))) = delivered st"
proof (cases "length (currentChunk (obj st)) < n")
  case False
  then show ?thesis
    using assms push_loop_empty [OF assms, of n] by (simp add: read_def)
next
  case True
  obtain r g' w' where g: "gen_next parse axios (obj st) from to (gen st) w = (r, g', w')"
    by (cases "gen_next parse axios (obj st) from to (gen st) w") auto
  have d: "delivered (st\<lparr>gen := g'\<rparr>) = delivered st"
    by (simp add: delivered_def)
  show ?thesis
  proof (cases r)
    case (Inl e)
    with True g assms d show ?thesis by (simp add: read_def)
  next
    case (Inr v)
    show ?thesis
    proof (cases v)
      case None
      with True g Inr assms d show ?thesis by (simp add: read_def)
    next
      case (Some chunk)
      let ?st = "st\<lparr>obj := (obj st)\<lparr>currentChunk := currentChunk (obj st)\<rparr>, gen := g'\<rparr>"
      have "currentChunk (obj ?st) = []"
        using assms by simp
      then have "currentChunk (obj (push_loop n ?st)) = []
                   \<and> delivered (push_loop n ?st) = delivered ?st"
        by (rule push_loop_empty)
      moreover have "delivered ?st = delivered st"
        by (simp add: delivered_def)
      ultimately show ?thesis
        using True g Inr Some by (simp add: read_def concat_loop_keeps)
    qed
  qed
qed

lemma stream_delivers_nothing:
  assumes "currentChunk (obj st) = []" and "delivered st = []"
  shows "delivered (fst (pulls parse axios from to ns (st, w))) = []"
  using assms
proof (induction ns arbitrary: st w)
  case Nil
  then show ?case by simp
next
  case (Cons n ns)
  obtain e st' w' where r: "read parse axios from to n (st, w) = (e, st', w')"
    by (cases "read parse axios from to n (st, w)") auto
  then have "currentChunk (obj st') = []" and "delivered st' = []"
    using read_empty [OF Cons.prems(1), of parse axios "from" to n w] Cons.prems(2) by simp_all
  then have "delivered (fst (pulls parse axios from to ns (st', w'))) = []"
    by (rule Cons.IH)
  then show ?case
    using r by simp
qed

lemma producer_requests_offset_zero:
  "calls (snd (snd (query_body parse axios this from to w)))
     = calls w @ [(page_request (metric this) (grafanaUrl this) from to (apiKey this) 0,
                   axios (calls w)
                     (page_request (metric this) (grafanaUrl this) from to (apiKey this) 0))]"
proof -
  let ?q = "(getQuery (metric this) from to CHUNK_SIZE 0)
              \<lparr>url := grafanaUrl this @ ''/'' @ url (getQuery (metric this) from to CHUNK_SIZE 0)\<rparr>"
  have "calls (snd (queryGrafana parse axios ?q (apiKey this) (datasource_type (metric this)) w))
          = calls w @ [(build_axiosQuery ?q (apiKey this),
                        axios (calls w) (build_axiosQuery ?q (apiKey this)))]"
    by (rule queryGrafana_calls)
  then show ?thesis
    by (cases "queryGrafana parse axios ?q (apiKey this) (datasource_type (metric this)) w")
      (auto simp add: query_body_def Let_def page_request_def split: sum.splits)
qed


text \<open>
  Claim C1 does not hold of the code. Against a backend of \<open>CHUNK_SIZE + 1\<close> rows served
  by offset, the aggregate fetch asks for the offsets \<open>0\<close> and \<open>CHUNK_SIZE\<close> and returns
  all rows; the stream, pulled twice for one point, asks for offset \<open>0\<close> both times (the
  generator never advances \<^verbatim>\<open>returnedValuesLength\<close>), pushes \<^verbatim>\<open>undefined\<close> both times (the
  result of \<^verbatim>\<open>concat\<close> is dropped, so the buffer stays empty) and delivers no point.
\<close>

theorem stream_ignores_offset_and_rows:
  "queryByMetric stub_URL two_pages stub_metric ''https://host/d/abc'' 0 10 ''key'' world0
     = Some (Inr \<lparr>columns = [''time'', ''a''], values' = values' page_a @ values' page_last\<rparr>,
             \<lparr>calls = [(stub_request 0, Inr page_a), (stub_request CHUNK_SIZE, Inr page_last)],
              console = []\<rparr>)
   \<and> new_DatasourceStream stub_URL stub_metric ''https://host/d/abc'' ''key'' = Inr stub_stream
   \<and> stream_query stub_stream 0 10 world0 = (Inr stub_handle, world0)
   \<and> pulls stub_URL two_pages 0 10 [1, 1] (stub_handle, world0)
     = (\<lparr>obj = stub_stream, gen = Suspended page_a, pushed = [None, None]\<rparr>,
        \<lparr>calls = [(stub_request 0, Inr page_a), (stub_request 0, Inr page_a)],
         console = []\<rparr>)
   \<and> delivered \<lparr>obj = stub_stream, gen = Suspended page_a, pushed = [None, None]\<rparr> = []"
proof -
  let ?w0 = "world0 :: (nat \<times> nat, (int \<times> int) chunk) world"
  let ?w1 = "?w0\<lparr>calls := calls ?w0 @ [(stub_request 0, Inr page_a)]\<rparr>"
  let ?s1 = "\<lparr>obj = stub_stream, gen = Suspended page_a, pushed = [None]\<rparr>"
  have empty: "currentChunk stub_stream = []"
    by (simp add: stub_stream_def)
  have full: "\<not> length (values' page_a) < CHUNK_SIZE"
    by (simp add: page_a_def)
  have r1: "read stub_URL two_pages 0 10 1 (stub_handle, ?w0) = (None, ?s1, ?w1)"
    by (simp add: read_def stub_handle_def gen_next_def stub_body empty concat_loop_keeps
        push_shift_def)
  have r2: "read stub_URL two_pages 0 10 1 (?s1, ?w1)
              = (None, \<lparr>obj = stub_stream, gen = Suspended page_a, pushed = [None, None]\<rparr>,
                 ?w1\<lparr>calls := calls ?w1 @ [(stub_request 0, Inr page_a)]\<rparr>)"
    using full
    by (simp add: read_def gen_next_def stub_body empty concat_loop_keeps push_shift_def)
  have "pulls stub_URL two_pages 0 10 [1, 1] (stub_handle, ?w0)
     = (\<lparr>obj = stub_stream, gen = Suspended page_a, pushed = [None, None]\<rparr>,
        \<lparr>calls = [(stub_request 0, Inr page_a), (stub_request 0, Inr page_a)],
         console = []\<rparr>)"
    using r1 r2 by (simp add: world0_def)
  moreover have "delivered \<lparr>obj = stub_stream, gen = Suspended page_a, pushed = [None, None]\<rparr> = []"
    by (simp add: delivered_def List.map_filter_def)
  ultimately show ?thesis
    using two_pages_fetch stub_stream_new stub_handle_query by simp
qed



end
